theory Spec2Isabelle
  imports Complex_Main "HOL-Library.Word" "HOL-Library.Sublist"
begin

section \<open>JavaScript strings\<close>

text \<open>
  A JavaScript string is a sequence of 16-bit code units.  Literals of the source are
  written with \<open>js\<close>, which maps each (ASCII) character to its code unit.
\<close>

type_synonym jschar = "16 word"
type_synonym jsstring = "jschar list"

definition chr :: "char \<Rightarrow> jschar" where
  "chr c = of_char c"

definition js :: "string \<Rightarrow> jsstring" where
  "js s = map chr s"

text \<open>\<^verbatim>\<open>s.startsWith(p)\<close>\<close>

definition startsWith :: "jsstring \<Rightarrow> jsstring \<Rightarrow> bool" where
  "startsWith s p = (take (length p) s = p)"

text \<open>
  \<^verbatim>\<open>s.split(sep)\<close> for a separator of one code unit: the pieces between the
  separators, in order; a string without separator is its own single piece.
\<close>

fun split :: "jschar \<Rightarrow> jsstring \<Rightarrow> jsstring list" where
  "split d [] = [[]]"
| "split d (c # cs) =
     (if c = d then [] # split d cs
      else (case split d cs of [] \<Rightarrow> [[c]] | p # ps \<Rightarrow> (c # p) # ps))"

text \<open>
  \<^verbatim>\<open>s.trim()\<close> removes leading and trailing white space and line terminators
  (ECMAScript \<open>WhiteSpace\<close> and \<open>LineTerminator\<close>).
\<close>

definition isWhiteSpace :: "jschar \<Rightarrow> bool" where
  "isWhiteSpace c =
     (c \<in> {0x0009, 0x000A, 0x000B, 0x000C, 0x000D, 0x0020, 0x00A0, 0x1680,
            0x2028, 0x2029, 0x202F, 0x205F, 0x3000, 0xFEFF}
      \<or> (0x2000 \<le> c \<and> c \<le> 0x200A))"

definition trim :: "jsstring \<Rightarrow> jsstring" where
  "trim s = rev (dropWhile isWhiteSpace (rev (dropWhile isWhiteSpace s)))"

text \<open>
  \<^verbatim>\<open>s.replace(pat, rep)\<close> with a string pattern replaces the first occurrence only
  (for a replacement without \<open>$\<close>, as \<open>.json\<close> in the source).
\<close>

fun replace :: "jsstring \<Rightarrow> jsstring \<Rightarrow> jsstring \<Rightarrow> jsstring" where
  "replace pat rep [] = (if pat = [] then rep else [])"
| "replace pat rep (c # cs) =
     (if startsWith (c # cs) pat then rep @ drop (length pat) (c # cs)
      else c # replace pat rep cs)"

section \<open>Regular expressions\<close>

text \<open>
  The regular expressions of the source use character classes, grouping, alternation,
  \<open>?\<close>, \<open>*\<close>, \<open>+\<close> and bounded repetition \<open>{m,n}\<close>, and are all anchored with
  \<open>^\<close> and \<open>$\<close>.  \<open>RegExp.test\<close> on such an expression decides whether the whole
  string belongs to the regular language; it is computed here with derivatives.
  A character class is a list of inclusive code-unit ranges.
\<close>

type_synonym charclass = "(jschar \<times> jschar) list"

datatype regex =
    Zero
  | One
  | Chars charclass
  | Plus regex regex
  | Times regex regex
  | Star regex

definition in_class :: "charclass \<Rightarrow> jschar \<Rightarrow> bool" where
  "in_class cl c = list_ex (\<lambda>(lo, hi). lo \<le> c \<and> c \<le> hi) cl"

fun nullable :: "regex \<Rightarrow> bool" where
  "nullable Zero = False"
| "nullable One = True"
| "nullable (Chars cl) = False"
| "nullable (Plus r s) = (nullable r \<or> nullable s)"
| "nullable (Times r s) = (nullable r \<and> nullable s)"
| "nullable (Star r) = True"

fun deriv :: "jschar \<Rightarrow> regex \<Rightarrow> regex" where
  "deriv c Zero = Zero"
| "deriv c One = Zero"
| "deriv c (Chars cl) = (if in_class cl c then One else Zero)"
| "deriv c (Plus r s) = Plus (deriv c r) (deriv c s)"
| "deriv c (Times r s) =
     (if nullable r then Plus (Times (deriv c r) s) (deriv c s)
      else Times (deriv c r) s)"
| "deriv c (Star r) = Times (deriv c r) (Star r)"

fun matches :: "regex \<Rightarrow> jsstring \<Rightarrow> bool" where
  "matches r [] = nullable r"
| "matches r (c # cs) = matches (deriv c r) cs"

text \<open>\<open>r?\<close>, \<open>r+\<close>, \<open>r{n}\<close>, \<open>r{0,n}\<close> and \<open>r{m,n}\<close>.\<close>

definition opt :: "regex \<Rightarrow> regex" where
  "opt r = Plus One r"

definition plus1 :: "regex \<Rightarrow> regex" where
  "plus1 r = Times r (Star r)"

fun exactly :: "regex \<Rightarrow> nat \<Rightarrow> regex" where
  "exactly r 0 = One"
| "exactly r (Suc n) = Times r (exactly r n)"

fun at_most :: "regex \<Rightarrow> nat \<Rightarrow> regex" where
  "at_most r 0 = One"
| "at_most r (Suc n) = Plus One (Times r (at_most r n))"

definition rep :: "regex \<Rightarrow> nat \<Rightarrow> nat \<Rightarrow> regex" where
  "rep r m n = Times (exactly r m) (at_most r (n - m))"

text \<open>Concatenation and alternation of several expressions.\<close>

fun seq :: "regex list \<Rightarrow> regex" where
  "seq [] = One"
| "seq [r] = r"
| "seq (r # rs) = Times r (seq rs)"

fun alt :: "regex list \<Rightarrow> regex" where
  "alt [] = Zero"
| "alt [r] = r"
| "alt (r # rs) = Plus r (alt rs)"

text \<open>The regular language of an expression, as a derivation relation.\<close>

inductive lang :: "regex \<Rightarrow> jsstring \<Rightarrow> bool" where
  lang_One: "lang One []"
| lang_Chars: "in_class cl c \<Longrightarrow> lang (Chars cl) [c]"
| lang_PlusL: "lang r w \<Longrightarrow> lang (Plus r s) w"
| lang_PlusR: "lang s w \<Longrightarrow> lang (Plus r s) w"
| lang_Times: "lang r u \<Longrightarrow> lang s v \<Longrightarrow> lang (Times r s) (u @ v)"
| lang_Star_Nil: "lang (Star r) []"
| lang_Star_Cons: "lang r u \<Longrightarrow> lang (Star r) v \<Longrightarrow> lang (Star r) (u @ v)"

section \<open>scripts/utils/rule-parser.js\<close>

subsection \<open>Character classes of the source\<close>

text \<open>\<^verbatim>\<open>[a-zA-Z0-9]\<close>\<close>
definition cc_alnum :: charclass where
  "cc_alnum = [(chr CHR ''a'', chr CHR ''z''), (chr CHR ''A'', chr CHR ''Z''),
               (chr CHR ''0'', chr CHR ''9'')]"

text \<open>\<^verbatim>\<open>[a-zA-Z0-9\-]\<close>\<close>
definition cc_alnum_hyphen :: charclass where
  "cc_alnum_hyphen = [(chr CHR ''a'', chr CHR ''z''), (chr CHR ''A'', chr CHR ''Z''),
                      (chr CHR ''0'', chr CHR ''9''), (chr CHR ''-'', chr CHR ''-'')]"

text \<open>\<^verbatim>\<open>\.\<close>, \<^verbatim>\<open>\/\<close>, \<^verbatim>\<open>:\<close>, \<^verbatim>\<open>\d\<close>, \<^verbatim>\<open>[0-9a-fA-F]\<close>,
  \<^verbatim>\<open>[a-zA-Z0-9_\-\.]\<close>\<close>
definition cc_dot :: charclass where
  "cc_dot = [(chr CHR ''.'', chr CHR ''.'')]"

definition cc_slash :: charclass where
  "cc_slash = [(chr CHR ''/'', chr CHR ''/'')]"

definition cc_colon :: charclass where
  "cc_colon = [(chr CHR '':'', chr CHR '':'')]"

definition cc_digit :: charclass where
  "cc_digit = [(chr CHR ''0'', chr CHR ''9'')]"

definition cc_hex :: charclass where
  "cc_hex = [(chr CHR ''0'', chr CHR ''9''), (chr CHR ''a'', chr CHR ''f''),
             (chr CHR ''A'', chr CHR ''F'')]"

definition cc_process :: charclass where
  "cc_process = [(chr CHR ''a'', chr CHR ''z''), (chr CHR ''A'', chr CHR ''Z''),
                 (chr CHR ''0'', chr CHR ''9''), (chr CHR ''_'', chr CHR ''_''),
                 (chr CHR ''-'', chr CHR ''-''), (chr CHR ''.'', chr CHR ''.'')]"

subsection \<open>isValidDomain\<close>

text \<open>
  \<^verbatim>\<open>[a-zA-Z0-9]([a-zA-Z0-9\-]{0,61}[a-zA-Z0-9])?\<close>, the expression of one label.
\<close>

definition labelRegex :: regex where
  "labelRegex =
     Times (Chars cc_alnum) (opt (Times (rep (Chars cc_alnum_hyphen) 0 61) (Chars cc_alnum)))"

text \<open>
  \<^verbatim>\<open>/^[a-zA-Z0-9]([a-zA-Z0-9\-]{0,61}[a-zA-Z0-9])?(\.[a-zA-Z0-9]([a-zA-Z0-9\-]{0,61}[a-zA-Z0-9])?)*$/\<close>
\<close>

definition domainRegex :: regex where
  "domainRegex = Times labelRegex (Star (Times (Chars cc_dot) labelRegex))"

definition cleanDomain :: "jsstring \<Rightarrow> jsstring" where
  "cleanDomain domain = (if startsWith domain (js ''.'') then drop 1 domain else domain)"

definition isValidDomain :: "jsstring \<Rightarrow> bool" where
  "isValidDomain domain =
     (if domain = [] then False
      else matches domainRegex (cleanDomain domain))"

subsection \<open>isValidCidr\<close>

text \<open>\<^verbatim>\<open>/^(\d{1,3}\.){3}\d{1,3}\/\d{1,2}$/\<close>\<close>

definition ipv4Regex :: regex where
  "ipv4Regex =
     seq [exactly (Times (rep (Chars cc_digit) 1 3) (Chars cc_dot)) 3,
          rep (Chars cc_digit) 1 3,
          Chars cc_slash,
          rep (Chars cc_digit) 1 2]"

text \<open>\<^verbatim>\<open>[0-9a-fA-F]{1,4}\<close>, then \<^verbatim>\<open>[0-9a-fA-F]{1,4}:\<close> and \<^verbatim>\<open>:[0-9a-fA-F]{1,4}\<close>.\<close>

definition hextet :: regex where
  "hextet = rep (Chars cc_hex) 1 4"

definition hextet_colon :: regex where
  "hextet_colon = Times hextet (Chars cc_colon)"

definition colon_hextet :: regex where
  "colon_hextet = Times (Chars cc_colon) hextet"

text \<open>
  The nine alternatives of the IPv6 expression, in the order of the source, followed by
  \<^verbatim>\<open>\/\d{1,3}\<close>.
\<close>

definition ipv6Regex :: regex where
  "ipv6Regex =
     seq [alt [Times (rep hextet_colon 7 7) hextet,
               Times (rep hextet_colon 1 7) (Chars cc_colon),
               seq [rep hextet_colon 1 6, Chars cc_colon, hextet],
               Times (rep hextet_colon 1 5) (rep colon_hextet 1 2),
               Times (rep hextet_colon 1 4) (rep colon_hextet 1 3),
               Times (rep hextet_colon 1 3) (rep colon_hextet 1 4),
               Times (rep hextet_colon 1 2) (rep colon_hextet 1 5),
               seq [hextet, Chars cc_colon, rep colon_hextet 1 6],
               Times (Chars cc_colon) (Plus (rep colon_hextet 1 7) (Chars cc_colon))],
          Chars cc_slash,
          rep (Chars cc_digit) 1 3]"

definition isValidCidr :: "jsstring \<Rightarrow> bool" where
  "isValidCidr cidr =
     (if cidr = [] then False
      else matches ipv4Regex cidr \<or> matches ipv6Regex cidr)"

subsection \<open>isValidProcessName\<close>

text \<open>\<^verbatim>\<open>/^[a-zA-Z0-9_\-\.]+$/\<close>\<close>

definition processNameRegex :: regex where
  "processNameRegex = plus1 (Chars cc_process)"

definition isValidProcessName :: "jsstring \<Rightarrow> bool" where
  "isValidProcessName processName =
     (if processName = [] then False
      else matches processNameRegex processName)"

subsection \<open>filterValidRules\<close>

definition filterValidRules :: "jsstring list \<Rightarrow> jsstring \<Rightarrow> jsstring list" where
  "filterValidRules rules type =
     filter (\<lambda>rule.
       if type = js ''domain-suffix'' then isValidDomain rule
       else if type = js ''ip-cidr'' then isValidCidr rule
       else if type = js ''process-name'' then isValidProcessName rule
       else True) rules"

subsection \<open>getRuleStats\<close>

record rule_stats =
  total :: nat
  empty :: nat
  duplicate :: nat
  valid :: nat

text \<open>The test \<^verbatim>\<open>!rule || rule.trim() === ''\<close> of the loop.\<close>

definition blank :: "jsstring \<Rightarrow> bool" where
  "blank rule = (rule = [] \<or> trim rule = [])"

text \<open>The loop over the rules, with the set \<open>uniqueRules\<close> and the counters.\<close>

fun getRuleStats_loop :: "jsstring list \<Rightarrow> jsstring set \<Rightarrow> rule_stats \<Rightarrow> rule_stats" where
  "getRuleStats_loop [] uniqueRules stats = stats"
| "getRuleStats_loop (rule # rules) uniqueRules stats =
     (if blank rule then
        getRuleStats_loop rules uniqueRules (stats\<lparr>empty := empty stats + 1\<rparr>)
      else if rule \<in> uniqueRules then
        getRuleStats_loop rules uniqueRules (stats\<lparr>duplicate := duplicate stats + 1\<rparr>)
      else
        getRuleStats_loop rules (insert rule uniqueRules) (stats\<lparr>valid := valid stats + 1\<rparr>))"

definition getRuleStats :: "jsstring list \<Rightarrow> rule_stats" where
  "getRuleStats rules =
     getRuleStats_loop rules {} \<lparr>total = length rules, empty = 0, duplicate = 0, valid = 0\<rparr>"

section \<open>The runtime\<close>

subsection \<open>Values and exceptions\<close>

text \<open>
  The values that \<^verbatim>\<open>JSON.parse\<close> produces, and \<open>undefined\<close>.  An object is the list of
  its own properties in enumeration order, each key once.  A number stands for its exact
  value: the scripts only compare the numbers they read with 0 (truthiness) and with 1.
\<close>

datatype jsval =
    Undefined
  | Null
  | Bool bool
  | Num rat
  | Str jsstring
  | Arr "jsval list"
  | Obj "(jsstring \<times> jsval) list"

text \<open>A thrown exception: an \<open>Error\<close> with its message, or a \<open>TypeError\<close> of the engine.\<close>

datatype js_error = Error jsstring | TypeError

fun truthy :: "jsval \<Rightarrow> bool" where
  "truthy Undefined = False"
| "truthy Null = False"
| "truthy (Bool b) = b"
| "truthy (Num n) = (n \<noteq> 0)"
| "truthy (Str s) = (s \<noteq> [])"
| "truthy (Arr vs) = True"
| "truthy (Obj kvs) = True"

fun typeof :: "jsval \<Rightarrow> jsstring" where
  "typeof Undefined = js ''undefined''"
| "typeof Null = js ''object''"
| "typeof (Bool b) = js ''boolean''"
| "typeof (Num n) = js ''number''"
| "typeof (Str s) = js ''string''"
| "typeof (Arr vs) = js ''object''"
| "typeof (Obj kvs) = js ''object''"

text \<open>
  Reading the property \<open>k\<close> of a value, \<^verbatim>\<open>v.k\<close>, for the names the scripts read
  (\<open>version\<close>, \<open>rules\<close>, \<open>description\<close>, \<open>type\<close>): it throws on \<open>undefined\<close> and
  \<open>null\<close>; an object gives its own property or \<open>undefined\<close>; no other value and no
  prototype has a property of one of these names.
\<close>

fun getField :: "jsval \<Rightarrow> jsstring \<Rightarrow> js_error + jsval" where
  "getField Undefined k = Inl TypeError"
| "getField Null k = Inl TypeError"
| "getField (Obj kvs) k = Inr (case map_of kvs k of Some v \<Rightarrow> v | None \<Rightarrow> Undefined)"
| "getField v k = Inr Undefined"

text \<open>
  The call \<^verbatim>\<open>v.hasOwnProperty(k)\<close>, for the same names.  The method is looked up like any
  property: an own property of that name shadows the method of \<open>Object.prototype\<close>, and
  calling it throws, as no JSON value is a function.
\<close>

fun hasOwnProperty :: "jsval \<Rightarrow> jsstring \<Rightarrow> js_error + bool" where
  "hasOwnProperty Undefined k = Inl TypeError"
| "hasOwnProperty Null k = Inl TypeError"
| "hasOwnProperty (Obj kvs) k =
     (if map_of kvs (js ''hasOwnProperty'') \<noteq> None then Inl TypeError
      else Inr (map_of kvs k \<noteq> None))"
| "hasOwnProperty v k = Inr False"

subsection \<open>Node.js and the operating system\<close>

text \<open>
  The file system, the clock and the external compiler are not part of the scripts.  They
  are a parameter: a state \<open>'w\<close> of the outside world and the primitives of Node.js on it.
  A primitive that reads returns a value or throws; one that writes returns the new world,
  and the exception if it threw.  \<open>scripts_dirname\<close> and \<open>utils_dirname\<close> are
  \<^verbatim>\<open>__dirname\<close> in \<open>scripts/\<close> and in \<open>scripts/utils/\<close>; \<open>Number_toString\<close> is the string
  of a number, and \<open>TypeError_message\<close> the message of the engine's \<open>TypeError\<close>.
\<close>

type_synonym path = jsstring

record 'w node =
  existsSync :: "'w \<Rightarrow> path \<Rightarrow> bool"
  readFileSync :: "'w \<Rightarrow> path \<Rightarrow> js_error + jsstring"
  statSync_size :: "'w \<Rightarrow> path \<Rightarrow> js_error + nat"
  readdirSync :: "'w \<Rightarrow> path \<Rightarrow> js_error + jsstring list"
  writeFileSync :: "'w \<Rightarrow> path \<Rightarrow> jsstring \<Rightarrow> js_error option \<times> 'w"
  mkdirSync :: "'w \<Rightarrow> path \<Rightarrow> js_error option \<times> 'w"
  unlinkSync :: "'w \<Rightarrow> path \<Rightarrow> js_error option \<times> 'w"
  rmdirSync :: "'w \<Rightarrow> path \<Rightarrow> js_error option \<times> 'w"
  execSync :: "'w \<Rightarrow> jsstring \<Rightarrow> js_error option \<times> 'w"
  path_join :: "path \<Rightarrow> path \<Rightarrow> path"
  path_dirname :: "path \<Rightarrow> path"
  path_basename :: "path \<Rightarrow> jsstring \<Rightarrow> jsstring"
  JSON_parse :: "jsstring \<Rightarrow> js_error + jsval"
  JSON_stringify :: "jsval \<Rightarrow> jsstring"
  Date_now :: "'w \<Rightarrow> nat"
  Date_toISOString :: "'w \<Rightarrow> jsstring"
  Number_toString :: "rat \<Rightarrow> jsstring"
  TypeError_message :: jsstring
  scripts_dirname :: path
  utils_dirname :: path

definition errorMessage :: "'w node \<Rightarrow> js_error \<Rightarrow> jsstring" where
  "errorMessage env e = (case e of Error m \<Rightarrow> m | TypeError \<Rightarrow> TypeError_message env)"

definition numToString :: "'w node \<Rightarrow> nat \<Rightarrow> jsstring" where
  "numToString env n = Number_toString env (of_nat n)"

text \<open>
  The conversion of a value to a string, in a template literal \<^verbatim>\<open>`${v}`\<close> and in a
  computed property key \<^verbatim>\<open>{[v]: x}\<close> or \<^verbatim>\<open>o[v]\<close>.  An object is converted by its
  method \<open>toString\<close>, then \<open>valueOf\<close>: without an own property \<open>toString\<close> the method of
  \<open>Object.prototype\<close> gives \<open>[object Object]\<close>; an own property \<open>toString\<close> is never a
  function, \<open>valueOf\<close> then gives no primitive value (its own property is no function,
  the inherited method returns the object), and the conversion throws.  An array is
  converted by \<open>join\<close>: its elements, converted, with commas between; \<open>null\<close> and
  \<open>undefined\<close> elements give the empty string.
\<close>

fun toStringWith :: "(rat \<Rightarrow> jsstring) \<Rightarrow> jsval \<Rightarrow> js_error + jsstring"
  and joinWith :: "(rat \<Rightarrow> jsstring) \<Rightarrow> jsval list \<Rightarrow> js_error + jsstring" where
  "toStringWith nts Undefined = Inr (js ''undefined'')"
| "toStringWith nts Null = Inr (js ''null'')"
| "toStringWith nts (Bool b) = Inr (if b then js ''true'' else js ''false'')"
| "toStringWith nts (Num n) = Inr (nts n)"
| "toStringWith nts (Str x) = Inr x"
| "toStringWith nts (Arr vs) = joinWith nts vs"
| "toStringWith nts (Obj kvs) =
     (if map_of kvs (js ''toString'') \<noteq> None then Inl TypeError
      else Inr (js ''[object Object]''))"
| "joinWith nts [] = Inr []"
| "joinWith nts (v # vs) =
     (case (if v = Undefined \<or> v = Null then Inr [] else toStringWith nts v) of
        Inl e \<Rightarrow> Inl e
      | Inr x \<Rightarrow>
          (if vs = [] then Inr x
           else (case joinWith nts vs of
                   Inl e \<Rightarrow> Inl e
                 | Inr y \<Rightarrow> Inr (x @ js '','' @ y))))"

definition ToString :: "'w node \<Rightarrow> jsval \<Rightarrow> js_error + jsstring" where
  "ToString env v = toStringWith (Number_toString env) v"

subsection \<open>The console\<close>

text \<open>
  Each call of \<^verbatim>\<open>console.log\<close>, \<^verbatim>\<open>console.warn\<close> and \<^verbatim>\<open>console.error\<close> of
  the scripts is recorded with its method and a message: one constructor for each template
  string of the source, carrying the values it interpolates.
\<close>

datatype console_method = ConsoleLog | ConsoleWarn | ConsoleError

datatype message =
    SourceFileNotFound path
  | BuildingSrsFile path
  | SrsFileBuilt path
  | SrsFileBuildFailed path
  | SingBoxBuildFailed js_error
  | BuiltFallbackFile path
  | FallbackBuildFailed js_error
  | UsingTemplate path
  | BuildingRule jsstring jsstring
  | FoundRules nat jsstring
  | NoRulesFound jsstring
  | ValidRulesCount nat nat
  | NoValidRulesFound jsstring
  | RuleStats rule_stats
  | FailedToBuild jsstring jsstring js_error
  | StartingBuild
  | BuildReportHeader
  | BuildReportLine jsstring nat
  | BuildReportSaved path
  | FailedRulesHeader
  | FailedRuleLine jsstring jsstring
  | Validating jsstring jsstring
  | ValidationCounts nat nat nat
  | ValidatingTemplate jsstring
  | TemplateValidationCompleted
  | StartingValidation
  | ValidationReportHeader
  | ValidationReportLine jsstring nat
  | ErrorsHeader
  | WarningsHeader
  | ReportedLine jsstring
  | ValidationReportSaved path

record 'w state =
  world :: 'w
  console :: "(console_method \<times> message) list"

definition print :: "console_method \<Rightarrow> message \<Rightarrow> 'w state \<Rightarrow> 'w state" where
  "print m msg s = s\<lparr>console := console s @ [(m, msg)]\<rparr>"

text \<open>The console entries added between a state and a later one.\<close>

definition emitted :: "'w state \<Rightarrow> 'w state \<Rightarrow> (console_method \<times> message) list" where
  "emitted s s' = drop (length (console s)) (console s')"

text \<open>A writing primitive run on the world of a state.\<close>

definition effect :: "('w \<Rightarrow> js_error option \<times> 'w) \<Rightarrow> 'w state \<Rightarrow> (js_error + unit) \<times> 'w state" where
  "effect f s =
     (case f (world s) of
        (None, w) \<Rightarrow> (Inr (), s\<lparr>world := w\<rparr>)
      | (Some e, w) \<Rightarrow> (Inl e, s\<lparr>world := w\<rparr>))"

section \<open>scripts/utils/rule-parser.js: parseTextFile\<close>

definition LF :: jschar where
  "LF = 0x000A"

definition isRuleLine :: "jsstring \<Rightarrow> bool" where
  "isRuleLine line = (line \<noteq> [] \<and> \<not> startsWith line (js ''#'') \<and> \<not> startsWith line (js ''//''))"

definition parseTextFile ::
  "'w node \<Rightarrow> path \<Rightarrow> 'w state \<Rightarrow> (js_error + jsstring list) \<times> 'w state" where
  "parseTextFile env filePath s =
     (if \<not> existsSync env (world s) filePath then
        (Inr [], print ConsoleWarn (SourceFileNotFound filePath) s)
      else
        (case readFileSync env (world s) filePath of
           Inl e \<Rightarrow> (Inl e, s)
         | Inr content \<Rightarrow> (Inr (filter isRuleLine (map trim (split LF content))), s)))"

section \<open>scripts/utils/file-utils.js\<close>

definition FileUtils_ensureDir :: "'w node \<Rightarrow> path \<Rightarrow> 'w state \<Rightarrow> (js_error + unit) \<times> 'w state" where
  "FileUtils_ensureDir env dir s =
     (if \<not> existsSync env (world s) dir then effect (\<lambda>w. mkdirSync env w dir) s
      else (Inr (), s))"

definition FileUtils_exists :: "'w node \<Rightarrow> path \<Rightarrow> 'w state \<Rightarrow> bool" where
  "FileUtils_exists env filePath s = existsSync env (world s) filePath"

definition FileUtils_readFile :: "'w node \<Rightarrow> path \<Rightarrow> 'w state \<Rightarrow> js_error + jsstring" where
  "FileUtils_readFile env filePath s =
     (if \<not> existsSync env (world s) filePath then Inl (Error (js ''File not found: '' @ filePath))
      else readFileSync env (world s) filePath)"

definition FileUtils_writeFile ::
  "'w node \<Rightarrow> path \<Rightarrow> jsstring \<Rightarrow> 'w state \<Rightarrow> (js_error + unit) \<times> 'w state" where
  "FileUtils_writeFile env filePath content s =
     (case FileUtils_ensureDir env (path_dirname env filePath) s of
        (Inl e, s1) \<Rightarrow> (Inl e, s1)
      | (Inr _, s1) \<Rightarrow> effect (\<lambda>w. writeFileSync env w filePath content) s1)"

definition FileUtils_readJsonFile :: "'w node \<Rightarrow> path \<Rightarrow> 'w state \<Rightarrow> js_error + jsval" where
  "FileUtils_readJsonFile env filePath s =
     (case FileUtils_readFile env filePath s of
        Inl e \<Rightarrow> Inl e
      | Inr content \<Rightarrow> JSON_parse env content)"

definition FileUtils_writeJsonFile ::
  "'w node \<Rightarrow> path \<Rightarrow> jsval \<Rightarrow> 'w state \<Rightarrow> (js_error + unit) \<times> 'w state" where
  "FileUtils_writeJsonFile env filePath data s =
     FileUtils_writeFile env filePath (JSON_stringify env data) s"

section \<open>scripts/utils/srs-builder.js\<close>

text \<open>
  The rule data that \<open>buildRule\<close> passes to the builder:
  \<^verbatim>\<open>{version, rules: {[type]: validRules}, description, type, metadata}\<close>.
  \<open>rd_rules\<close> is the object of rule arrays, by key (its own properties).
\<close>

record metadata =
  count :: nat
  built_at :: jsstring
  source :: jsstring
  stats :: rule_stats

record rule_data =
  rd_version :: jsval
  rd_rules :: "(jsstring \<times> jsstring list) list"
  rd_description :: jsval
  rd_type :: jsval
  rd_metadata :: metadata

definition tempDir :: "'w node \<Rightarrow> path" where
  "tempDir env = path_join env (utils_dirname env) (js ''../../temp'')"

definition ensureTempDir :: "'w node \<Rightarrow> 'w state \<Rightarrow> (js_error + unit) \<times> 'w state" where
  "ensureTempDir env s =
     (if \<not> existsSync env (world s) (tempDir env) then effect (\<lambda>w. mkdirSync env w (tempDir env)) s
      else (Inr (), s))"

fun unlinkFiles :: "'w node \<Rightarrow> path \<Rightarrow> jsstring list \<Rightarrow> 'w state \<Rightarrow> (js_error + unit) \<times> 'w state" where
  "unlinkFiles env dir [] s = (Inr (), s)"
| "unlinkFiles env dir (file # files) s =
     (case effect (\<lambda>w. unlinkSync env w (path_join env dir file)) s of
        (Inl e, s1) \<Rightarrow> (Inl e, s1)
      | (Inr _, s1) \<Rightarrow> unlinkFiles env dir files s1)"

definition cleanTempDir :: "'w node \<Rightarrow> 'w state \<Rightarrow> (js_error + unit) \<times> 'w state" where
  "cleanTempDir env s =
     (if existsSync env (world s) (tempDir env) then
        (case readdirSync env (world s) (tempDir env) of
           Inl e \<Rightarrow> (Inl e, s)
         | Inr files \<Rightarrow>
             (case unlinkFiles env (tempDir env) files s of
                (Inl e, s1) \<Rightarrow> (Inl e, s1)
              | (Inr _, s1) \<Rightarrow> effect (\<lambda>w. rmdirSync env w (tempDir env)) s1))
      else (Inr (), s))"

text \<open>\<^verbatim>\<open>ruleData.type || Object.keys(ruleData.rules)[0]\<close>\<close>

definition ruleTypeOf :: "rule_data \<Rightarrow> jsval" where
  "ruleTypeOf ruleData =
     (if truthy (rd_type ruleData) then rd_type ruleData
      else (case rd_rules ruleData of [] \<Rightarrow> Undefined | (k, _) # _ \<Rightarrow> Str k))"

text \<open>
  The value of \<^verbatim>\<open>ruleData.rules[ruleType] || []\<close>.  The key is \<open>ruleType\<close> converted to
  a string.  An own property of the rules object is an array, never falsy.  Otherwise the
  property is read from \<open>Object.prototype\<close>: a method, or the prototype itself for
  \<open>__proto__\<close>, both truthy.  Otherwise it is \<open>undefined\<close>, and the value is \<open>[]\<close>.
\<close>

datatype rules_value = RulesArray "jsstring list" | PrototypeMethod | PrototypeObject

definition prototypeMethods :: "jsstring list" where
  "prototypeMethods =
     [js ''constructor'', js ''hasOwnProperty'', js ''isPrototypeOf'',
      js ''propertyIsEnumerable'', js ''toLocaleString'', js ''toString'', js ''valueOf'',
      js ''__defineGetter__'', js ''__defineSetter__'', js ''__lookupGetter__'',
      js ''__lookupSetter__'']"

definition rulesOf :: "'w node \<Rightarrow> rule_data \<Rightarrow> js_error + rules_value" where
  "rulesOf env ruleData =
     (case ToString env (ruleTypeOf ruleData) of
        Inl e \<Rightarrow> Inl e
      | Inr key \<Rightarrow>
          (case map_of (rd_rules ruleData) key of
             Some rules \<Rightarrow> Inr (RulesArray rules)
           | None \<Rightarrow>
               (if key = js ''__proto__'' then Inr PrototypeObject
                else if key \<in> set prototypeMethods then Inr PrototypeMethod
                else Inr (RulesArray []))))"

text \<open>
  \<^verbatim>\<open>{version: v, rules: [{[ruleType]: rules}]}\<close>, as \<open>JSON.stringify\<close> reads it: a
  property whose value is a function is left out, and \<open>Object.prototype\<close> has no property
  to write.
\<close>

definition ruleSetDocument :: "'w node \<Rightarrow> jsval \<Rightarrow> rule_data \<Rightarrow> js_error + jsval" where
  "ruleSetDocument env v ruleData =
     (case rulesOf env ruleData of
        Inl e \<Rightarrow> Inl e
      | Inr rules \<Rightarrow>
          (case ToString env (ruleTypeOf ruleData) of
             Inl e \<Rightarrow> Inl e
           | Inr key \<Rightarrow>
               Inr (Obj [(js ''version'', v),
                         (js ''rules'',
                            Arr [case rules of
                                   RulesArray rs \<Rightarrow> Obj [(key, Arr (map Str rs))]
                                 | PrototypeMethod \<Rightarrow> Obj []
                                 | PrototypeObject \<Rightarrow> Obj [(key, Obj [])]])])))"

text \<open>A string between double quotes (code unit 34), as in the command line.\<close>

definition quoted :: "jsstring \<Rightarrow> jsstring" where
  "quoted p = [0x22] @ p @ [0x22]"

text \<open>The \<open>try\<close> block of \<open>buildWithSingBox\<close>.\<close>

definition tempJsonFile :: "'w node \<Rightarrow> 'w state \<Rightarrow> path" where
  "tempJsonFile env s =
     path_join env (tempDir env)
       (js ''temp_'' @ numToString env (Date_now env (world s)) @ js ''.json'')"

definition compileCommand :: "path \<Rightarrow> path \<Rightarrow> jsstring" where
  "compileCommand outputFile tempFile =
     js ''sing-box rule-set compile --output '' @ quoted outputFile @ js '' '' @ quoted tempFile"

definition compileWithSingBox ::
  "'w node \<Rightarrow> rule_data \<Rightarrow> path \<Rightarrow> 'w state \<Rightarrow> (js_error + bool) \<times> 'w state" where
  "compileWithSingBox env ruleData outputFile s =
     (case ruleSetDocument env (Num 2) ruleData of
        Inl e \<Rightarrow> (Inl e, s)
      | Inr ruleSet \<Rightarrow>
          (let tempFile = tempJsonFile env s
           in case effect (\<lambda>w. writeFileSync env w tempFile (JSON_stringify env ruleSet)) s of
                (Inl e, s1) \<Rightarrow> (Inl e, s1)
              | (Inr _, s1) \<Rightarrow>
                  (let cmd = compileCommand outputFile tempFile;
                       s2 = print ConsoleLog (BuildingSrsFile outputFile) s1
                   in case effect (\<lambda>w. execSync env w cmd) s2 of
                        (Inl e, s3) \<Rightarrow> (Inl e, s3)
                      | (Inr _, s3) \<Rightarrow>
                          (if existsSync env (world s3) outputFile then
                             (case statSync_size env (world s3) outputFile of
                                Inl e \<Rightarrow> (Inl e, s3)
                              | Inr fileSize \<Rightarrow>
                                  (if fileSize > 0 then
                                     (Inr True, print ConsoleLog (SrsFileBuilt outputFile) s3)
                                   else
                                     (Inr False,
                                      print ConsoleWarn (SrsFileBuildFailed outputFile) s3)))
                           else (Inr False,
                                 print ConsoleWarn (SrsFileBuildFailed outputFile) s3)))))"

text \<open>
  \<open>buildWithSingBox\<close>: \<open>ensureTempDir\<close> runs before the \<open>try\<close>; the \<open>catch\<close> turns an
  exception of the block into \<open>false\<close>; \<open>cleanTempDir\<close> runs in the \<open>finally\<close>, and an
  exception of it replaces the result.
\<close>

definition buildWithSingBox ::
  "'w node \<Rightarrow> rule_data \<Rightarrow> path \<Rightarrow> 'w state \<Rightarrow> (js_error + bool) \<times> 'w state" where
  "buildWithSingBox env ruleData outputFile s =
     (case ensureTempDir env s of
        (Inl e, s1) \<Rightarrow> (Inl e, s1)
      | (Inr _, s1) \<Rightarrow>
          (let (result, s2) =
                 (case compileWithSingBox env ruleData outputFile s1 of
                    (Inl e, s') \<Rightarrow> (False, print ConsoleError (SingBoxBuildFailed e) s')
                  | (Inr b, s') \<Rightarrow> (b, s'))
           in case cleanTempDir env s2 of
                (Inl e, s3) \<Rightarrow> (Inl e, s3)
              | (Inr _, s3) \<Rightarrow> (Inr result, s3)))"

definition fallbackFile :: "path \<Rightarrow> path" where
  "fallbackFile outputFile = replace (js ''.srs'') (js ''.json'') outputFile"

text \<open>
  The document that \<open>buildFallback\<close> writes, with \<^verbatim>\<open>version: ruleData.version || 2\<close>;
  building it throws when the rule type cannot be converted to a key.
\<close>

definition fallbackDocument :: "'w node \<Rightarrow> rule_data \<Rightarrow> js_error + jsstring" where
  "fallbackDocument env ruleData =
     (case ruleSetDocument env
             (if truthy (rd_version ruleData) then rd_version ruleData else Num 2) ruleData of
        Inl e \<Rightarrow> Inl e
      | Inr singBoxFormat \<Rightarrow> Inr (JSON_stringify env singBoxFormat))"

definition buildFallback :: "'w node \<Rightarrow> rule_data \<Rightarrow> path \<Rightarrow> 'w state \<Rightarrow> bool \<times> 'w state" where
  "buildFallback env ruleData outputFile s =
     (let jsonFile = fallbackFile outputFile
      in case fallbackDocument env ruleData of
           Inl e \<Rightarrow> (False, print ConsoleError (FallbackBuildFailed e) s)
         | Inr document \<Rightarrow>
             (case effect (\<lambda>w. writeFileSync env w jsonFile document) s of
                (Inl e, s1) \<Rightarrow> (False, print ConsoleError (FallbackBuildFailed e) s1)
              | (Inr _, s1) \<Rightarrow> (True, print ConsoleLog (BuiltFallbackFile jsonFile) s1)))"

text \<open>The first statement of \<open>buildSrsFile\<close>: the directory of the output file is made.\<close>

definition ensureOutputDir :: "'w node \<Rightarrow> path \<Rightarrow> 'w state \<Rightarrow> (js_error + unit) \<times> 'w state" where
  "ensureOutputDir env outputFile s =
     (let outputDir = path_dirname env outputFile
      in if \<not> existsSync env (world s) outputDir then effect (\<lambda>w. mkdirSync env w outputDir) s
         else (Inr (), s))"

definition buildSrsFile ::
  "'w node \<Rightarrow> rule_data \<Rightarrow> path \<Rightarrow> 'w state \<Rightarrow> (js_error + bool) \<times> 'w state" where
  "buildSrsFile env ruleData outputFile s =
     (case ensureOutputDir env outputFile s of
        (Inl e, s1) \<Rightarrow> (Inl e, s1)
      | (Inr _, s1) \<Rightarrow>
          (case buildWithSingBox env ruleData outputFile s1 of
             (Inl e, s2) \<Rightarrow> (Inl e, s2)
           | (Inr True, s2) \<Rightarrow> (Inr True, s2)
           | (Inr False, s2) \<Rightarrow>
               (case buildFallback env ruleData outputFile s2 of (b, s3) \<Rightarrow> (Inr b, s3))))"

section \<open>scripts/build-rules.js\<close>

text \<open>The class \<open>RuleBuilder\<close> and its command line.\<close>

record artifact =
  a_type :: jsstring
  a_source :: jsstring
  a_output :: jsstring
  a_rules :: "jsstring list"
  a_metadata :: metadata

record build_config =
  cfg_type :: jsstring
  cfg_source :: jsstring
  cfg_output :: jsstring

record build_summary =
  total_configs :: nat
  success_count :: nat
  failed_count :: nat
  skipped_count :: nat
  total_rules :: nat

text \<open>The \<open>results\<close> of \<open>buildAll\<close>; \<open>br_summary\<close> is \<open>None\<close> while it is still \<^verbatim>\<open>{}\<close>.\<close>

record build_results =
  br_success :: "artifact list"
  br_failed :: "(build_config \<times> jsstring) list"
  br_skipped :: "build_config list"
  br_summary :: "build_summary option"

definition sourcesDir :: "'w node \<Rightarrow> path" where
  "sourcesDir env = path_join env (scripts_dirname env) (js ''../sources'')"

definition templatesDir :: "'w node \<Rightarrow> path" where
  "templatesDir env = path_join env (scripts_dirname env) (js ''../templates'')"

definition distDir :: "'w node \<Rightarrow> path" where
  "distDir env = path_join env (scripts_dirname env) (js ''../dist'')"

text \<open>The constructor makes the output directory.\<close>

definition RuleBuilder_constructor :: "'w node \<Rightarrow> 'w state \<Rightarrow> (js_error + unit) \<times> 'w state" where
  "RuleBuilder_constructor env s = FileUtils_ensureDir env (distDir env) s"

definition loadTemplate ::
  "'w node \<Rightarrow> jsstring \<Rightarrow> jsstring \<Rightarrow> 'w state \<Rightarrow> (js_error + jsval) \<times> 'w state" where
  "loadTemplate env outputFile type s =
     (let baseName = path_basename env outputFile (js ''.srs'');
          specific = path_join env (templatesDir env) (baseName @ js ''.json'');
          templateFile =
            (if \<not> FileUtils_exists env specific s
             then path_join env (templatesDir env) (type @ js ''.json'')
             else specific)
      in if \<not> FileUtils_exists env templateFile s then
           (Inl (Error (js ''Template not found: '' @ templateFile)), s)
         else
           (case FileUtils_readJsonFile env templateFile s of
              Inl e \<Rightarrow> (Inl e, s)
            | Inr template \<Rightarrow> (Inr template, print ConsoleLog (UsingTemplate templateFile) s)))"

text \<open>
  The object literals of \<open>buildRule\<close>: the metadata and the rule data, from the
  properties read off the template; \<open>key\<close> is the computed key \<^verbatim>\<open>[template.type]\<close>, the
  type converted to a string.
\<close>

definition ruleMetadata ::
  "'w node \<Rightarrow> jsstring \<Rightarrow> jsstring list \<Rightarrow> rule_stats \<Rightarrow> 'w state \<Rightarrow> metadata" where
  "ruleMetadata env sourceFile validRules st s =
     \<lparr>count = length validRules,
      built_at = Date_toISOString env (world s),
      source = sourceFile,
      stats = st\<rparr>"

definition ruleDataOf ::
  "jsval \<Rightarrow> jsval \<Rightarrow> jsstring \<Rightarrow> jsval \<Rightarrow> jsstring list \<Rightarrow> metadata \<Rightarrow> rule_data" where
  "ruleDataOf tversion ttype key tdescription validRules meta =
     \<lparr>rd_version = tversion,
      rd_rules = [(key, validRules)],
      rd_description = tdescription,
      rd_type = ttype,
      rd_metadata = meta\<rparr>"

text \<open>
  The part of \<open>buildRule\<close> after the template is loaded: the rule data, the build and the
  returned artifact.  The property reads throw together (on a template that is \<open>null\<close>)
  or not at all; the computed key throws when the type cannot be converted to a string.
\<close>

definition buildFromTemplate ::
  "'w node \<Rightarrow> jsstring \<Rightarrow> jsstring \<Rightarrow> jsstring \<Rightarrow> jsstring list \<Rightarrow> rule_stats \<Rightarrow> jsval
     \<Rightarrow> 'w state \<Rightarrow> (js_error + artifact option) \<times> 'w state" where
  "buildFromTemplate env type sourceFile outputFile validRules st template s =
     (case (getField template (js ''version''), getField template (js ''type''),
            getField template (js ''description'')) of
        (Inr tversion, Inr ttype, Inr tdescription) \<Rightarrow>
          (case ToString env ttype of
             Inl e \<Rightarrow> (Inl e, s)
           | Inr key \<Rightarrow>
               (let meta = ruleMetadata env sourceFile validRules st s;
                    ruleData = ruleDataOf tversion ttype key tdescription validRules meta;
                    outputPath = path_join env (distDir env) outputFile
                in case buildSrsFile env ruleData outputPath s of
                     (Inl e, s1) \<Rightarrow> (Inl e, s1)
                   | (Inr success, s1) \<Rightarrow>
                       (if success then
                          (Inr (Some \<lparr>a_type = type, a_source = sourceFile,
                                       a_output = outputFile, a_rules = validRules,
                                       a_metadata = meta\<rparr>), s1)
                        else (Inr None, s1))))
      | (Inl e, _, _) \<Rightarrow> (Inl e, s)
      | (_, Inl e, _) \<Rightarrow> (Inl e, s)
      | (_, _, Inl e) \<Rightarrow> (Inl e, s))"

text \<open>The \<open>try\<close> block of \<open>buildRule\<close>.\<close>

definition buildRule_try ::
  "'w node \<Rightarrow> jsstring \<Rightarrow> jsstring \<Rightarrow> jsstring \<Rightarrow> 'w state
     \<Rightarrow> (js_error + artifact option) \<times> 'w state" where
  "buildRule_try env type sourceFile outputFile s =
     (case parseTextFile env (path_join env (sourcesDir env) sourceFile) s of
        (Inl e, s1) \<Rightarrow> (Inl e, s1)
      | (Inr rules, s1) \<Rightarrow>
          (let s2 = print ConsoleLog (FoundRules (length rules) sourceFile) s1
           in if length rules = 0 then
                (Inr None, print ConsoleWarn (NoRulesFound sourceFile) s2)
              else
                (let validRules = filterValidRules rules type;
                     s3 = print ConsoleLog
                            (ValidRulesCount (length validRules) (length rules - length validRules)) s2
                 in if length validRules = 0 then
                      (Inr None, print ConsoleWarn (NoValidRulesFound sourceFile) s3)
                    else
                      (let st = getRuleStats rules;
                           s4 = print ConsoleLog (RuleStats st) s3
                       in case loadTemplate env outputFile type s4 of
                            (Inl e, s5) \<Rightarrow> (Inl e, s5)
                          | (Inr template, s5) \<Rightarrow>
                              buildFromTemplate env type sourceFile outputFile validRules st
                                template s5))))"

text \<open>\<open>buildRule\<close> returns the artifact, or \<open>None\<close> for \<open>null\<close>; it never throws.\<close>

definition buildRule ::
  "'w node \<Rightarrow> jsstring \<Rightarrow> jsstring \<Rightarrow> jsstring \<Rightarrow> 'w state \<Rightarrow> artifact option \<times> 'w state" where
  "buildRule env type sourceFile outputFile s =
     (case buildRule_try env type sourceFile outputFile
             (print ConsoleLog (BuildingRule type sourceFile) s) of
        (Inl e, s1) \<Rightarrow> (None, print ConsoleError (FailedToBuild type sourceFile e) s1)
      | (Inr result, s1) \<Rightarrow> (result, s1))"

definition ruleConfigs :: "build_config list" where
  "ruleConfigs =
     [\<lparr>cfg_type = js ''domain-suffix'', cfg_source = js ''direct-domains.txt'',
        cfg_output = js ''direct-domains.srs''\<rparr>,
      \<lparr>cfg_type = js ''ip-cidr'', cfg_source = js ''direct-ips.txt'',
        cfg_output = js ''direct-ips.srs''\<rparr>,
      \<lparr>cfg_type = js ''process-name'', cfg_source = js ''direct-process.txt'',
        cfg_output = js ''direct-process.srs''\<rparr>,
      \<lparr>cfg_type = js ''domain-suffix'', cfg_source = js ''proxy-domains.txt'',
        cfg_output = js ''proxy-domains.srs''\<rparr>,
      \<lparr>cfg_type = js ''domain-suffix'', cfg_source = js ''proxy-domains-private.txt'',
        cfg_output = js ''proxy-domains-private.srs''\<rparr>,
      \<lparr>cfg_type = js ''ip-cidr'', cfg_source = js ''proxy-ips.txt'',
        cfg_output = js ''proxy-ips.srs''\<rparr>,
      \<lparr>cfg_type = js ''process-name'', cfg_source = js ''proxy-process.txt'',
        cfg_output = js ''proxy-process.srs''\<rparr>]"

text \<open>
  The loop of \<open>buildAll\<close> over the configs, with \<open>results\<close> and \<open>totalRules\<close>.  As
  \<open>buildRule\<close> never throws, the \<open>catch\<close> of the loop is never entered and \<open>failed\<close>
  stays as it is.
\<close>

fun buildAll_loop ::
  "'w node \<Rightarrow> build_config list \<Rightarrow> build_results \<Rightarrow> nat \<Rightarrow> 'w state
     \<Rightarrow> (build_results \<times> nat) \<times> 'w state" where
  "buildAll_loop env [] results totalRules s = ((results, totalRules), s)"
| "buildAll_loop env (config # configs) results totalRules s =
     (case buildRule env (cfg_type config) (cfg_source config) (cfg_output config) s of
        (Some result, s1) \<Rightarrow>
          buildAll_loop env configs (results\<lparr>br_success := br_success results @ [result]\<rparr>)
            (totalRules + length (a_rules result)) s1
      | (None, s1) \<Rightarrow>
          buildAll_loop env configs (results\<lparr>br_skipped := br_skipped results @ [config]\<rparr>)
            totalRules s1)"

definition num :: "nat \<Rightarrow> jsval" where
  "num n = Num (of_nat n)"

definition json_of_stats :: "rule_stats \<Rightarrow> jsval" where
  "json_of_stats st =
     Obj [(js ''total'', num (total st)), (js ''empty'', num (empty st)),
          (js ''duplicate'', num (duplicate st)), (js ''valid'', num (valid st))]"

definition json_of_metadata :: "metadata \<Rightarrow> jsval" where
  "json_of_metadata m =
     Obj [(js ''count'', num (count m)), (js ''built_at'', Str (built_at m)),
          (js ''source'', Str (source m)), (js ''stats'', json_of_stats (stats m))]"

definition json_of_artifact :: "artifact \<Rightarrow> jsval" where
  "json_of_artifact a =
     Obj [(js ''type'', Str (a_type a)), (js ''source'', Str (a_source a)),
          (js ''output'', Str (a_output a)), (js ''rules'', Arr (map Str (a_rules a))),
          (js ''metadata'', json_of_metadata (a_metadata a))]"

definition json_of_config :: "build_config \<Rightarrow> jsval" where
  "json_of_config c =
     Obj [(js ''type'', Str (cfg_type c)), (js ''source'', Str (cfg_source c)),
          (js ''output'', Str (cfg_output c))]"

definition json_of_summary :: "build_summary \<Rightarrow> jsval" where
  "json_of_summary sm =
     Obj [(js ''total_configs'', num (total_configs sm)), (js ''success'', num (success_count sm)),
          (js ''failed'', num (failed_count sm)), (js ''skipped'', num (skipped_count sm)),
          (js ''total_rules'', num (total_rules sm))]"

fun printAll :: "console_method \<Rightarrow> message list \<Rightarrow> 'w state \<Rightarrow> 'w state" where
  "printAll m [] s = s"
| "printAll m (msg # msgs) s = printAll m msgs (print m msg s)"

definition generateBuildReport ::
  "'w node \<Rightarrow> build_results \<Rightarrow> build_summary \<Rightarrow> 'w state \<Rightarrow> (js_error + unit) \<times> 'w state" where
  "generateBuildReport env results sm s =
     (let report =
            Obj [(js ''timestamp'', Str (Date_toISOString env (world s))),
                 (js ''summary'', json_of_summary sm),
                 (js ''files'',
                    Obj [(js ''success'', Arr (map json_of_artifact (br_success results))),
                         (js ''failed'',
                            Arr (map (\<lambda>(c, e). Obj [(js ''config'', json_of_config c),
                                                    (js ''error'', Str e)]) (br_failed results))),
                         (js ''skipped'', Arr (map json_of_config (br_skipped results)))])];
          reportPath = path_join env (distDir env) (js ''build-report.json'')
      in case FileUtils_writeJsonFile env reportPath report s of
           (Inl e, s1) \<Rightarrow> (Inl e, s1)
         | (Inr _, s1) \<Rightarrow>
             (let s2 = printAll ConsoleLog
                         [BuildReportHeader,
                          BuildReportLine (js ''Success'') (success_count sm),
                          BuildReportLine (js ''Failed'') (failed_count sm),
                          BuildReportLine (js ''Skipped'') (skipped_count sm),
                          BuildReportLine (js ''Total rules'') (total_rules sm),
                          BuildReportSaved reportPath] s1
              in if failed_count sm > 0 then
                   (Inr (), printAll ConsoleLog
                      (FailedRulesHeader
                         # map (\<lambda>(c, e). FailedRuleLine (cfg_source c) e) (br_failed results)) s2)
                 else (Inr (), s2)))"

definition buildAll :: "'w node \<Rightarrow> 'w state \<Rightarrow> (js_error + build_results) \<times> 'w state" where
  "buildAll env s =
     (case buildAll_loop env ruleConfigs
             \<lparr>br_success = [], br_failed = [], br_skipped = [], br_summary = None\<rparr> 0
             (print ConsoleLog StartingBuild s) of
        ((results, totalRules), s1) \<Rightarrow>
          (let sm = \<lparr>total_configs = length ruleConfigs,
                     success_count = length (br_success results),
                     failed_count = length (br_failed results),
                     skipped_count = length (br_skipped results),
                     total_rules = totalRules\<rparr>;
               results' = results\<lparr>br_summary := Some sm\<rparr>
           in case generateBuildReport env results' sm s1 of
                (Inl e, s2) \<Rightarrow> (Inl e, s2)
              | (Inr _, s2) \<Rightarrow> (Inr results', s2)))"

section \<open>scripts/validate-rules.js\<close>

text \<open>The class \<open>RuleValidator\<close> and its command line.\<close>

record validation_stats =
  vs_total :: nat
  vs_valid :: nat
  vs_invalid :: nat
  vs_duplicate :: nat

record source_result =
  sr_file :: jsstring
  sr_type :: jsstring
  sr_valid :: bool
  sr_errors :: "jsstring list"
  sr_warnings :: "jsstring list"
  sr_stats :: validation_stats

record template_result =
  tr_file :: jsstring
  tr_valid :: bool
  tr_errors :: "jsstring list"
  tr_warnings :: "jsstring list"

record validation_summary =
  total_files :: nat
  valid_files :: nat
  invalid_files :: nat
  sum_total_rules :: nat
  sum_valid_rules :: nat
  sum_invalid_rules :: nat

record validation_results =
  vr_sources :: "source_result list"
  vr_templates :: "template_result list"
  vr_summary :: validation_summary

text \<open>The loop of \<open>validateSourceFile\<close> that counts the repeated rules.\<close>

fun countDuplicates :: "jsstring list \<Rightarrow> jsstring set \<Rightarrow> nat \<Rightarrow> nat" where
  "countDuplicates [] uniqueRules duplicates = duplicates"
| "countDuplicates (rule # rules) uniqueRules duplicates =
     (if rule \<in> uniqueRules then countDuplicates rules uniqueRules (duplicates + 1)
      else countDuplicates rules (insert rule uniqueRules) duplicates)"

text \<open>
  The \<open>try\<close> block of \<open>validateSourceFile\<close>: the exception it threw, if any, and the
  result as it stands then.
\<close>

definition validateSourceFile_try ::
  "'w node \<Rightarrow> jsstring \<Rightarrow> jsstring \<Rightarrow> source_result \<Rightarrow> 'w state
     \<Rightarrow> (js_error option \<times> source_result) \<times> 'w state" where
  "validateSourceFile_try env sourceFile type result s =
     (let filePath = path_join env (sourcesDir env) sourceFile
      in if \<not> FileUtils_exists env filePath s then
           ((None, result\<lparr>sr_errors := sr_errors result @ [js ''Source file not found: '' @ filePath],
                          sr_valid := False\<rparr>), s)
         else
           (case parseTextFile env filePath s of
              (Inl e, s1) \<Rightarrow> ((Some e, result), s1)
            | (Inr rules, s1) \<Rightarrow>
                (let result1 = result\<lparr>sr_stats := (sr_stats result)\<lparr>vs_total := length rules\<rparr>\<rparr>
                 in if length rules = 0 then
                      ((None, result1\<lparr>sr_warnings :=
                                  sr_warnings result1 @ [js ''No rules found in file'']\<rparr>), s1)
                    else
                      (let validRules = filterValidRules rules type;
                           invalidRules = filter (\<lambda>rule. rule \<notin> set validRules) rules;
                           duplicates = countDuplicates rules {} 0;
                           result2 = result1\<lparr>sr_stats := (sr_stats result1)
                                       \<lparr>vs_valid := length validRules,
                                        vs_invalid := length invalidRules,
                                        vs_duplicate := duplicates\<rparr>\<rparr>;
                           result3 =
                             (if length invalidRules > 0 then
                                result2\<lparr>sr_errors := sr_errors result2
                                           @ [js ''Found '' @ numToString env (length invalidRules)
                                                @ js '' invalid rules''],
                                        sr_valid := False,
                                        sr_warnings := sr_warnings result2
                                           @ map (\<lambda>rule. js ''Invalid rule: '' @ rule)
                                               (take 10 invalidRules)
                                           @ (if length invalidRules > 10 then
                                                [js ''... and ''
                                                   @ numToString env (length invalidRules - 10)
                                                   @ js '' more invalid rules'']
                                              else [])\<rparr>
                              else result2);
                           result4 =
                             (if duplicates > 0 then
                                result3\<lparr>sr_warnings := sr_warnings result3
                                           @ [js ''Found '' @ numToString env duplicates
                                                @ js '' duplicate rules'']\<rparr>
                              else result3)
                       in ((None, result4),
                           print ConsoleLog
                             (ValidationCounts (length validRules) (length invalidRules) duplicates)
                             s1)))))"

definition validateSourceFile ::
  "'w node \<Rightarrow> jsstring \<Rightarrow> jsstring \<Rightarrow> 'w state \<Rightarrow> source_result \<times> 'w state" where
  "validateSourceFile env sourceFile type s =
     (case validateSourceFile_try env sourceFile type
             \<lparr>sr_file = sourceFile, sr_type = type, sr_valid = True, sr_errors = [],
              sr_warnings = [],
              sr_stats = \<lparr>vs_total = 0, vs_valid = 0, vs_invalid = 0, vs_duplicate = 0\<rparr>\<rparr>
             (print ConsoleLog (Validating sourceFile type) s) of
        ((None, result), s1) \<Rightarrow> (result, s1)
      | ((Some e, result), s1) \<Rightarrow>
          (result\<lparr>sr_errors := sr_errors result
                     @ [js ''Validation failed: '' @ errorMessage env e],
                  sr_valid := False\<rparr>, s1))"

text \<open>The loop of \<open>validateTemplate\<close> over the required fields.\<close>

fun checkRequiredFields ::
  "jsval \<Rightarrow> jsstring list \<Rightarrow> template_result \<Rightarrow> js_error option \<times> template_result" where
  "checkRequiredFields template [] result = (None, result)"
| "checkRequiredFields template (field # others) result =
     (case hasOwnProperty template field of
        Inl e \<Rightarrow> (Some e, result)
      | Inr True \<Rightarrow> checkRequiredFields template others result
      | Inr False \<Rightarrow>
          checkRequiredFields template others
            (result\<lparr>tr_errors := tr_errors result @ [js ''Missing required field: '' @ field],
                    tr_valid := False\<rparr>))"

definition requiredFields :: "jsstring list" where
  "requiredFields = [js ''version'', js ''rules'', js ''description'', js ''type'']"

text \<open>The checks of \<open>validateTemplate\<close> on the parsed template, inside the \<open>try\<close>.\<close>

definition checkTemplate ::
  "'w node \<Rightarrow> jsval \<Rightarrow> template_result \<Rightarrow> js_error option \<times> template_result" where
  "checkTemplate env template result =
     (case checkRequiredFields template requiredFields result of
        (Some e, result1) \<Rightarrow> (Some e, result1)
      | (None, result1) \<Rightarrow>
          (case getField template (js ''version'') of
             Inl e \<Rightarrow> (Some e, result1)
           | Inr tversion \<Rightarrow>
               (case (if tversion \<noteq> Num 1 then
                        (case ToString env tversion of
                           Inl e \<Rightarrow> Inl e
                         | Inr shown \<Rightarrow>
                             Inr (result1\<lparr>tr_warnings := tr_warnings result1
                                            @ [js ''Unexpected version: '' @ shown
                                                 @ js '' (expected: 1)'']\<rparr>))
                      else Inr result1) of
                  Inl e \<Rightarrow> (Some e, result1)
                | Inr result2 \<Rightarrow>
                 case getField template (js ''type'') of
                     Inl e \<Rightarrow> (Some e, result2)
                   | Inr ttype \<Rightarrow>
                       (let result3 =
                              (if \<not> truthy ttype \<or> typeof ttype \<noteq> js ''string'' then
                                 result2\<lparr>tr_errors := tr_errors result2
                                            @ [js ''Invalid or missing type field''],
                                         tr_valid := False\<rparr>
                               else result2)
                        in case getField template (js ''rules'') of
                             Inl e \<Rightarrow> (Some e, result3)
                           | Inr trules \<Rightarrow>
                               (None,
                                if \<not> truthy trules \<or> typeof trules \<noteq> js ''object'' then
                                  result3\<lparr>tr_errors := tr_errors result3
                                             @ [js ''Invalid rules field structure''],
                                          tr_valid := False\<rparr>
                                else result3)))))"

definition validateTemplate ::
  "'w node \<Rightarrow> jsstring \<Rightarrow> 'w state \<Rightarrow> template_result \<times> 'w state" where
  "validateTemplate env templateFile s =
     (let s0 = print ConsoleLog (ValidatingTemplate templateFile) s;
          result = \<lparr>tr_file = templateFile, tr_valid = True, tr_errors = [], tr_warnings = []\<rparr>;
          templatePath = path_join env (templatesDir env) templateFile;
          failed = (\<lambda>e r. r\<lparr>tr_errors := tr_errors r
                               @ [js ''Template validation failed: '' @ errorMessage env e],
                            tr_valid := False\<rparr>)
      in if \<not> FileUtils_exists env templatePath s0 then
           (result\<lparr>tr_errors := tr_errors result
                      @ [js ''Template file not found: '' @ templatePath],
                   tr_valid := False\<rparr>, s0)
         else
           (case FileUtils_readJsonFile env templatePath s0 of
              Inl e \<Rightarrow> (failed e result, s0)
            | Inr template \<Rightarrow>
                (case checkTemplate env template result of
                   (Some e, result1) \<Rightarrow> (failed e result1, s0)
                 | (None, result1) \<Rightarrow> (result1, print ConsoleLog TemplateValidationCompleted s0))))"

definition sourceConfigs :: "(jsstring \<times> jsstring) list" where
  "sourceConfigs =
     [(js ''direct-domains.txt'', js ''domain-suffix''),
      (js ''direct-ips.txt'', js ''ip-cidr''),
      (js ''direct-process.txt'', js ''process-name''),
      (js ''proxy-domains.txt'', js ''domain-suffix''),
      (js ''proxy-domains-private.txt'', js ''domain-suffix''),
      (js ''proxy-ips.txt'', js ''ip-cidr''),
      (js ''proxy-process.txt'', js ''process-name'')]"

definition templateConfigs :: "jsstring list" where
  "templateConfigs = [js ''domain-suffix.json'', js ''ip-cidr.json'', js ''process-name.json'']"

text \<open>The two loops of \<open>validateAll\<close>, over the source configs and over the templates.\<close>

fun validateSources ::
  "'w node \<Rightarrow> (jsstring \<times> jsstring) list \<Rightarrow> validation_results \<Rightarrow> 'w state
     \<Rightarrow> validation_results \<times> 'w state" where
  "validateSources env [] results s = (results, s)"
| "validateSources env ((src, type) # configs) results s =
     (case validateSourceFile env src type s of
        (result, s1) \<Rightarrow>
          (let sm = vr_summary results;
               sm' =
                 (if sr_valid result then
                    sm\<lparr>valid_files := valid_files sm + 1,
                       sum_total_rules := sum_total_rules sm + vs_total (sr_stats result),
                       sum_valid_rules := sum_valid_rules sm + vs_valid (sr_stats result),
                       sum_invalid_rules := sum_invalid_rules sm + vs_invalid (sr_stats result)\<rparr>
                  else sm\<lparr>invalid_files := invalid_files sm + 1\<rparr>)
           in validateSources env configs
                (results\<lparr>vr_sources := vr_sources results @ [result], vr_summary := sm'\<rparr>) s1))"

fun validateTemplates ::
  "'w node \<Rightarrow> jsstring list \<Rightarrow> validation_results \<Rightarrow> 'w state
     \<Rightarrow> validation_results \<times> 'w state" where
  "validateTemplates env [] results s = (results, s)"
| "validateTemplates env (template # templates) results s =
     (case validateTemplate env template s of
        (result, s1) \<Rightarrow>
          (let sm = vr_summary results;
               sm' = (if tr_valid result then sm\<lparr>valid_files := valid_files sm + 1\<rparr>
                      else sm\<lparr>invalid_files := invalid_files sm + 1\<rparr>)
           in validateTemplates env templates
                (results\<lparr>vr_templates := vr_templates results @ [result], vr_summary := sm'\<rparr>) s1))"

definition json_of_strings :: "jsstring list \<Rightarrow> jsval" where
  "json_of_strings xs = Arr (map Str xs)"

definition json_of_source_result :: "source_result \<Rightarrow> jsval" where
  "json_of_source_result r =
     Obj [(js ''file'', Str (sr_file r)), (js ''type'', Str (sr_type r)),
          (js ''valid'', Bool (sr_valid r)), (js ''errors'', json_of_strings (sr_errors r)),
          (js ''warnings'', json_of_strings (sr_warnings r)),
          (js ''stats'',
             Obj [(js ''total'', num (vs_total (sr_stats r))),
                  (js ''valid'', num (vs_valid (sr_stats r))),
                  (js ''invalid'', num (vs_invalid (sr_stats r))),
                  (js ''duplicate'', num (vs_duplicate (sr_stats r)))])]"

definition json_of_template_result :: "template_result \<Rightarrow> jsval" where
  "json_of_template_result r =
     Obj [(js ''file'', Str (tr_file r)), (js ''valid'', Bool (tr_valid r)),
          (js ''errors'', json_of_strings (tr_errors r)),
          (js ''warnings'', json_of_strings (tr_warnings r))]"

definition json_of_validation_results :: "validation_results \<Rightarrow> jsval" where
  "json_of_validation_results results =
     (let sm = vr_summary results
      in Obj [(js ''sources'', Arr (map json_of_source_result (vr_sources results))),
              (js ''templates'', Arr (map json_of_template_result (vr_templates results))),
              (js ''summary'',
                 Obj [(js ''total_files'', num (total_files sm)),
                      (js ''valid_files'', num (valid_files sm)),
                      (js ''invalid_files'', num (invalid_files sm)),
                      (js ''total_rules'', num (sum_total_rules sm)),
                      (js ''valid_rules'', num (sum_valid_rules sm)),
                      (js ''invalid_rules'', num (sum_invalid_rules sm))])])"

text \<open>\<^verbatim>\<open>rs.flatMap(r => r.errors.map(e => `${r.file}: ${e}`))\<close>\<close>

definition prefixed :: "jsstring \<Rightarrow> jsstring list \<Rightarrow> jsstring list" where
  "prefixed file xs = map (\<lambda>x. file @ js '': '' @ x) xs"

definition generateValidationReport ::
  "'w node \<Rightarrow> validation_results \<Rightarrow> 'w state \<Rightarrow> (js_error + unit) \<times> 'w state" where
  "generateValidationReport env results s =
     (let sm = vr_summary results;
          s1 = printAll ConsoleLog
                 [ValidationReportHeader,
                  ValidationReportLine (js ''Valid files'') (valid_files sm),
                  ValidationReportLine (js ''Invalid files'') (invalid_files sm),
                  ValidationReportLine (js ''Total rules'') (sum_total_rules sm),
                  ValidationReportLine (js ''Valid rules'') (sum_valid_rules sm),
                  ValidationReportLine (js ''Invalid rules'') (sum_invalid_rules sm)] s;
          allErrors =
            concat (map (\<lambda>r. prefixed (sr_file r) (sr_errors r)) (vr_sources results))
            @ concat (map (\<lambda>r. prefixed (tr_file r) (tr_errors r)) (vr_templates results));
          s2 = (if length allErrors > 0
                then printAll ConsoleLog (ErrorsHeader # map ReportedLine allErrors) s1 else s1);
          allWarnings =
            concat (map (\<lambda>r. prefixed (sr_file r) (sr_warnings r)) (vr_sources results))
            @ concat (map (\<lambda>r. prefixed (tr_file r) (tr_warnings r)) (vr_templates results));
          s3 = (if length allWarnings > 0
                then printAll ConsoleLog (WarningsHeader # map ReportedLine allWarnings) s2 else s2);
          reportPath = path_join env (scripts_dirname env) (js ''../dist/validation-report.json'')
      in case FileUtils_ensureDir env (path_dirname env reportPath) s3 of
           (Inl e, s4) \<Rightarrow> (Inl e, s4)
         | (Inr _, s4) \<Rightarrow>
             (case FileUtils_writeJsonFile env reportPath (json_of_validation_results results) s4 of
                (Inl e, s5) \<Rightarrow> (Inl e, s5)
              | (Inr _, s5) \<Rightarrow> (Inr (), print ConsoleLog (ValidationReportSaved reportPath) s5)))"

definition validateAll :: "'w node \<Rightarrow> 'w state \<Rightarrow> (js_error + validation_results) \<times> 'w state" where
  "validateAll env s =
     (let results0 =
            \<lparr>vr_sources = [], vr_templates = [],
             vr_summary = \<lparr>total_files = length sourceConfigs + length templateConfigs,
                           valid_files = 0, invalid_files = 0, sum_total_rules = 0,
                           sum_valid_rules = 0, sum_invalid_rules = 0\<rparr>\<rparr>
      in case validateSources env sourceConfigs results0 (print ConsoleLog StartingValidation s) of
           (results1, s1) \<Rightarrow>
             (case validateTemplates env templateConfigs results1 s1 of
                (results2, s2) \<Rightarrow>
                  (case generateValidationReport env results2 s2 of
                     (Inl e, s3) \<Rightarrow> (Inl e, s3)
                   | (Inr _, s3) \<Rightarrow> (Inr results2, s3))))"

text \<open>
  The exit status of the command line: \<^verbatim>\<open>process.exit(results.summary.invalid_files > 0 ? 1 : 0)\<close>
  for \<open>all\<close> and \<^verbatim>\<open>process.exit(result.valid ? 0 : 1)\<close> for \<open>source\<close>.
\<close>

definition exitStatus_all :: "validation_results \<Rightarrow> nat" where
  "exitStatus_all results = (if invalid_files (vr_summary results) > 0 then 1 else 0)"

definition exitStatus_source :: "source_result \<Rightarrow> nat" where
  "exitStatus_source result = (if sr_valid result then 0 else 1)"

section \<open>Notions of the specification\<close>

text \<open>
  The label grammar in the words of the specification: a label is 1 to 63 characters,
  each a letter, a digit or a hyphen, with no hyphen first or last.  The labels of a
  domain are the pieces between the dots, after the leading dot is stripped.
\<close>

definition hyphen :: jschar where
  "hyphen = chr CHR ''-''"

definition dot :: jschar where
  "dot = chr CHR ''.''"

definition underscore :: jschar where
  "underscore = chr CHR ''_''"

definition validLabel :: "jsstring \<Rightarrow> bool" where
  "validLabel l =
     (1 \<le> length l \<and> length l \<le> 63 \<and> list_all (in_class cc_alnum_hyphen) l
      \<and> hd l \<noteq> hyphen \<and> last l \<noteq> hyphen)"

definition labels :: "jsstring \<Rightarrow> jsstring list" where
  "labels domain = split dot (cleanDomain domain)"

definition underscoreOnly :: "jsstring \<Rightarrow> bool" where
  "underscoreOnly l = (l \<noteq> [] \<and> list_all (\<lambda>c. c = underscore) l)"

text \<open>A group of \<open>m\<close> to \<open>n\<close> decimal digits.\<close>

definition digitGroup :: "nat \<Rightarrow> nat \<Rightarrow> jsstring \<Rightarrow> bool" where
  "digitGroup m n g =
     (m \<le> length g \<and> length g \<le> n
      \<and> list_all (\<lambda>c. chr CHR ''0'' \<le> c \<and> c \<le> chr CHR ''9'') g)"

text \<open>
  The positions of a rule list that hold a non-blank string: those where the string occurs
  for the first time (\<open>later = False\<close>), and those where it has occurred before.
\<close>

definition occurrences :: "jsstring list \<Rightarrow> nat \<Rightarrow> nat \<Rightarrow> bool \<Rightarrow> nat list" where
  "occurrences rules lo hi later =
     filter (\<lambda>i. \<not> blank (rules ! i) \<and> ((rules ! i \<in> set (take i rules)) = later)) [lo..<hi]"

definition firstOccurrences :: "jsstring list \<Rightarrow> nat list" where
  "firstOccurrences rules = occurrences rules 0 (length rules) False"

definition laterOccurrences :: "jsstring list \<Rightarrow> nat list" where
  "laterOccurrences rules = occurrences rules 0 (length rules) True"

text \<open>
  The external compilation succeeds: the input document is built and written, the command
  returns (exit status zero, within the time limit), and the output file exists and is not
  empty.  It fails otherwise.
\<close>

definition binaryCompiled :: "'w node \<Rightarrow> rule_data \<Rightarrow> path \<Rightarrow> 'w state \<Rightarrow> bool" where
  "binaryCompiled env ruleData outputFile s =
     (case ruleSetDocument env (Num 2) ruleData of
        Inl e \<Rightarrow> False
      | Inr ruleSet \<Rightarrow>
          (case writeFileSync env (world s) (tempJsonFile env s) (JSON_stringify env ruleSet) of
             (Some e, w1) \<Rightarrow> False
           | (None, w1) \<Rightarrow>
               (case execSync env w1 (compileCommand outputFile (tempJsonFile env s)) of
                  (Some e, w2) \<Rightarrow> False
                | (None, w2) \<Rightarrow>
                    existsSync env w2 outputFile
                    \<and> (case statSync_size env w2 outputFile of
                           Inl e \<Rightarrow> False
                         | Inr n \<Rightarrow> 0 < n))))"

section \<open>An environment in memory\<close>

text \<open>
  A small instance of the runtime, to run the scripts on concrete inputs: the world is a
  table of paths and contents, every write succeeds, the external compiler is not installed
  (the command always fails), and \<open>JSON.parse\<close> is given as a table.
\<close>

type_synonym memory = "(path \<times> jsstring) list"

definition memory_node :: "(jsstring \<Rightarrow> js_error + jsval) \<Rightarrow> memory node" where
  "memory_node parse =
     \<lparr>existsSync = (\<lambda>w p. map_of w p \<noteq> None),
      readFileSync = (\<lambda>w p. case map_of w p of Some c \<Rightarrow> Inr c
                               | None \<Rightarrow> Inl (Error (js ''ENOENT''))),
      statSync_size = (\<lambda>w p. case map_of w p of Some c \<Rightarrow> Inr (length c)
                                | None \<Rightarrow> Inl (Error (js ''ENOENT''))),
      readdirSync = (\<lambda>w p. Inr (map (\<lambda>(q, c). drop (length p + 1) q)
                                   (filter (\<lambda>(q, c). take (length p + 1) q = p @ js ''/'') w))),
      writeFileSync = (\<lambda>w p c. (None, (p, c) # filter (\<lambda>(q, c). q \<noteq> p) w)),
      mkdirSync = (\<lambda>w p. (None, (p, []) # w)),
      unlinkSync = (\<lambda>w p. (None, filter (\<lambda>(q, c). q \<noteq> p) w)),
      rmdirSync = (\<lambda>w p. (None, filter (\<lambda>(q, c). q \<noteq> p) w)),
      execSync = (\<lambda>w cmd. (Some (Error (js ''Command failed'')), w)),
      path_join = (\<lambda>a b. a @ js ''/'' @ b),
      path_dirname = (\<lambda>p. rev (drop 1 (dropWhile (\<lambda>c. c \<noteq> chr CHR ''/'') (rev p)))),
      path_basename = (\<lambda>p ext. if drop (length p - length ext) p = ext
                                 then take (length p - length ext) p else p),
      JSON_parse = parse,
      JSON_stringify = (\<lambda>v. js ''{}''),
      Date_now = (\<lambda>w. 0),
      Date_toISOString = (\<lambda>w. js ''1970-01-01T00:00:00.000Z''),
      Number_toString = (\<lambda>n. if n = 2 then js ''2'' else js ''?''),
      TypeError_message = js ''TypeError'',
      scripts_dirname = js ''/s'',
      utils_dirname = js ''/s/utils''\<rparr>"

text \<open>
  A template of version 2; the same with an own property \<open>hasOwnProperty\<close>; one whose
  version is the object \<^verbatim>\<open>{"toString": 1}\<close>.
\<close>

definition template2 :: jsval where
  "template2 =
     Obj [(js ''version'', Num 2), (js ''rules'', Obj [(js ''domain-suffix'', Arr [])]),
          (js ''description'', Str (js ''d'')), (js ''type'', Str (js ''domain-suffix''))]"

definition templateShadow :: jsval where
  "templateShadow =
     Obj [(js ''version'', Num 2), (js ''rules'', Obj [(js ''domain-suffix'', Arr [])]),
          (js ''description'', Str (js ''d'')), (js ''type'', Str (js ''domain-suffix'')),
          (js ''hasOwnProperty'', Num 1)]"

definition templateVersionObject :: jsval where
  "templateVersionObject =
     Obj [(js ''version'', Obj [(js ''toString'', Num 1)]),
          (js ''rules'', Obj [(js ''domain-suffix'', Arr [])]),
          (js ''description'', Str (js ''d'')), (js ''type'', Str (js ''domain-suffix''))]"

definition node1 :: "memory node" where
  "node1 = memory_node (\<lambda>c. if c = js ''T'' then Inr template2
                             else if c = js ''S'' then Inr templateShadow
                             else if c = js ''V'' then Inr templateVersionObject
                             else Inl (Error (js ''SyntaxError'')))"

text \<open>
  A world with two source files (one valid rule; one invalid line), three templates and
  the output directory, and a world without files.
\<close>

definition world1 :: memory where
  "world1 = [(js ''/s/../sources/direct-domains.txt'', js ''example.com''),
             (js ''/s/../sources/proxy-domains.txt'', js ''bad_domain!''),
             (js ''/s/../templates/domain-suffix.json'', js ''T''),
             (js ''/s/../templates/shadow.json'', js ''S''),
             (js ''/s/../templates/version-object.json'', js ''V''),
             (js ''/s/../dist'', [])]"

definition state1 :: "memory state" where
  "state1 = \<lparr>world = world1, console = []\<rparr>"

definition state0 :: "memory state" where
  "state0 = \<lparr>world = [], console = []\<rparr>"

section \<open>Lemmas\<close>

subsection \<open>Regular expressions: the matcher decides the language\<close>

inductive_cases lang_ZeroE [elim!]: "lang Zero w"
inductive_cases lang_OneE [elim!]: "lang One w"
inductive_cases lang_CharsE [elim!]: "lang (Chars cl) w"
inductive_cases lang_PlusE [elim!]: "lang (Plus r s) w"
inductive_cases lang_TimesE [elim!]: "lang (Times r s) w"

lemma lang_One_iff [simp]: "lang One w \<longleftrightarrow> w = []"
  by (auto intro: lang.intros)

lemma lang_Zero_iff [simp]: "lang Zero w \<longleftrightarrow> False"
  by auto

lemma lang_Chars_iff [simp]: "lang (Chars cl) w \<longleftrightarrow> (\<exists>c. w = [c] \<and> in_class cl c)"
  by (auto intro: lang.intros)

lemma lang_Plus_iff [simp]: "lang (Plus r s) w \<longleftrightarrow> lang r w \<or> lang s w"
  by (auto intro: lang.intros)

lemma lang_Times_iff: "lang (Times r s) w \<longleftrightarrow> (\<exists>u v. w = u @ v \<and> lang r u \<and> lang s v)"
  by (auto intro: lang.intros)

lemma lang_Nil_nullable: "lang r w \<Longrightarrow> w = [] \<Longrightarrow> nullable r"
  by (induction rule: lang.induct) auto

lemma nullable_lang_Nil: "nullable r \<Longrightarrow> lang r []"
  by (induction r) (auto simp: lang_Times_iff intro: lang.intros)

lemma nullable_iff: "nullable r \<longleftrightarrow> lang r []"
  using lang_Nil_nullable nullable_lang_Nil by blast

lemma lang_Star_Cons_split:
  "lang R x \<Longrightarrow> R = Star r \<Longrightarrow> x = c # w \<Longrightarrow>
     \<exists>u v. w = u @ v \<and> lang r (c # u) \<and> lang (Star r) v"
proof (induction arbitrary: w rule: lang.induct)
  case (lang_Star_Cons r' u v)
  show ?case
  proof (cases u)
    case Nil
    with lang_Star_Cons show ?thesis by simp
  next
    case (Cons a u')
    with lang_Star_Cons show ?thesis by auto
  qed
qed simp_all

lemma deriv_lang: "lang (deriv c r) w \<longleftrightarrow> lang r (c # w)"
proof (induction r arbitrary: w)
  case (Times r s)
  show ?case
  proof
    assume "lang (deriv c (Times r s)) w"
    then show "lang (Times r s) (c # w)"
    proof (cases "nullable r")
      case True
      assume d: "lang (deriv c (Times r s)) w"
      with True have "(\<exists>u v. w = u @ v \<and> lang r (c # u) \<and> lang s v) \<or> lang s (c # w)"
        using Times by (auto simp: lang_Times_iff)
      then show ?thesis
      proof
        assume "\<exists>u v. w = u @ v \<and> lang r (c # u) \<and> lang s v"
        then obtain u v where "w = u @ v" "lang r (c # u)" "lang s v" by blast
        then have "lang (Times r s) ((c # u) @ v)" by (intro lang_Times)
        with \<open>w = u @ v\<close> show ?thesis by simp
      next
        assume "lang s (c # w)"
        moreover from True have "lang r []" by (simp add: nullable_iff)
        ultimately have "lang (Times r s) ([] @ c # w)" by (rule lang_Times [rotated])
        then show ?thesis by simp
      qed
    next
      case False
      assume d: "lang (deriv c (Times r s)) w"
      with False obtain u v where "w = u @ v" "lang r (c # u)" "lang s v"
        using Times by (auto simp: lang_Times_iff)
      then have "lang (Times r s) ((c # u) @ v)" by (intro lang_Times)
      with \<open>w = u @ v\<close> show ?thesis by simp
    qed
  next
    assume "lang (Times r s) (c # w)"
    then obtain u v where uv: "c # w = u @ v" "lang r u" "lang s v"
      by (auto simp: lang_Times_iff)
    show "lang (deriv c (Times r s)) w"
    proof (cases u)
      case Nil
      with uv Times show ?thesis by (auto simp: nullable_iff)
    next
      case (Cons a u')
      with uv Times show ?thesis by (auto simp: lang_Times_iff)
    qed
  qed
next
  case (Star r)
  show ?case
  proof
    assume "lang (deriv c (Star r)) w"
    then obtain u v where "w = u @ v" "lang (deriv c r) u" "lang (Star r) v"
      by (auto simp: lang_Times_iff)
    with Star have "lang r (c # u)" by simp
    then have "lang (Star r) ((c # u) @ v)"
      using \<open>lang (Star r) v\<close> by (rule lang_Star_Cons)
    with \<open>w = u @ v\<close> show "lang (Star r) (c # w)" by simp
  next
    assume "lang (Star r) (c # w)"
    then obtain u v where "w = u @ v" "lang r (c # u)" "lang (Star r) v"
      using lang_Star_Cons_split by blast
    with Star show "lang (deriv c (Star r)) w"
      by (auto simp: lang_Times_iff)
  qed
qed auto

lemma matches_lang: "matches r w \<longleftrightarrow> lang r w"
  by (induction w arbitrary: r) (simp_all add: nullable_iff deriv_lang)

lemma lang_Chars_Times:
  "lang (Times (Chars cl) s) w \<longleftrightarrow> (\<exists>c v. w = c # v \<and> in_class cl c \<and> lang s v)"
proof
  assume "lang (Times (Chars cl) s) w"
  then show "\<exists>c v. w = c # v \<and> in_class cl c \<and> lang s v"
    by (auto simp: lang_Times_iff)
next
  assume "\<exists>c v. w = c # v \<and> in_class cl c \<and> lang s v"
  then obtain c v where "w = c # v" "in_class cl c" "lang s v" by blast
  then have "lang (Times (Chars cl) s) ([c] @ v)"
    by (intro lang_Times lang_Chars)
  with \<open>w = c # v\<close> show "lang (Times (Chars cl) s) w" by simp
qed

lemma lang_exactly_Chars:
  "lang (exactly (Chars cl) n) w \<longleftrightarrow> length w = n \<and> (\<forall>c\<in>set w. in_class cl c)"
proof (induction n arbitrary: w)
  case 0
  show ?case by auto
next
  case (Suc n)
  show ?case by (cases w) (auto simp: lang_Chars_Times Suc)
qed

lemma lang_at_most_Chars:
  "lang (at_most (Chars cl) n) w \<longleftrightarrow> length w \<le> n \<and> (\<forall>c\<in>set w. in_class cl c)"
proof (induction n arbitrary: w)
  case 0
  show ?case by auto
next
  case (Suc n)
  show ?case by (cases w) (auto simp: lang_Chars_Times Suc)
qed

lemma lang_rep_Chars:
  "m \<le> n \<Longrightarrow> lang (rep (Chars cl) m n) w \<longleftrightarrow>
     m \<le> length w \<and> length w \<le> n \<and> (\<forall>c\<in>set w. in_class cl c)"
proof -
  assume mn: "m \<le> n"
  show ?thesis
  proof
    assume "lang (rep (Chars cl) m n) w"
    then obtain u v where "w = u @ v" "length u = m" "\<forall>c\<in>set u. in_class cl c"
        "length v \<le> n - m" "\<forall>c\<in>set v. in_class cl c"
      by (auto simp: rep_def lang_Times_iff lang_exactly_Chars lang_at_most_Chars)
    with mn show "m \<le> length w \<and> length w \<le> n \<and> (\<forall>c\<in>set w. in_class cl c)"
      by auto
  next
    assume a: "m \<le> length w \<and> length w \<le> n \<and> (\<forall>c\<in>set w. in_class cl c)"
    have "w = take m w @ drop m w" by simp
    moreover have "lang (exactly (Chars cl) m) (take m w)"
      using a by (auto simp: lang_exactly_Chars dest: in_set_takeD)
    moreover have "lang (at_most (Chars cl) (n - m)) (drop m w)"
      using a by (auto simp: lang_at_most_Chars dest: in_set_dropD)
    ultimately show "lang (rep (Chars cl) m n) w"
      unfolding rep_def lang_Times_iff by blast
  qed
qed

subsection \<open>The language of the domain expression\<close>

lemma in_class_dot [simp]: "in_class cc_dot c \<longleftrightarrow> c = dot"
  by (auto simp: in_class_def cc_dot_def dot_def)

lemma alnum_iff: "in_class cc_alnum c \<longleftrightarrow> in_class cc_alnum_hyphen c \<and> c \<noteq> hyphen"
  by (auto simp: in_class_def cc_alnum_def cc_alnum_hyphen_def hyphen_def chr_def)

lemma dot_not_alnum_hyphen [simp]: "\<not> in_class cc_alnum_hyphen dot"
  by (simp add: in_class_def cc_alnum_hyphen_def dot_def chr_def)

lemma underscore_not_alnum_hyphen [simp]: "\<not> in_class cc_alnum_hyphen underscore"
  by (simp add: in_class_def cc_alnum_hyphen_def underscore_def chr_def)

lemma lang_opt [simp]: "lang (opt r) w \<longleftrightarrow> w = [] \<or> lang r w"
  by (simp add: opt_def)

lemma lang_labelRegex: "lang labelRegex l \<longleftrightarrow> validLabel l"
proof
  assume "lang labelRegex l"
  then obtain a rest where l: "l = a # rest" and a: "in_class cc_alnum a"
    and rest: "rest = [] \<or> (\<exists>mid z. rest = mid @ [z] \<and> length mid \<le> 61
                 \<and> (\<forall>c\<in>set mid. in_class cc_alnum_hyphen c) \<and> in_class cc_alnum z)"
    by (auto simp: labelRegex_def lang_Chars_Times lang_Times_iff lang_rep_Chars)
  from rest show "validLabel l"
  proof
    assume "rest = []"
    with l a show ?thesis by (simp add: validLabel_def alnum_iff)
  next
    assume "\<exists>mid z. rest = mid @ [z] \<and> length mid \<le> 61
                 \<and> (\<forall>c\<in>set mid. in_class cc_alnum_hyphen c) \<and> in_class cc_alnum z"
    then obtain mid z where "rest = mid @ [z]" "length mid \<le> 61"
      "\<forall>c\<in>set mid. in_class cc_alnum_hyphen c" "in_class cc_alnum z" by blast
    with l a show ?thesis by (auto simp: validLabel_def alnum_iff list_all_iff)
  qed
next
  assume v: "validLabel l"
  then obtain a rest where l: "l = a # rest" by (cases l) (auto simp: validLabel_def)
  with v have a: "in_class cc_alnum a" by (simp add: validLabel_def alnum_iff)
  show "lang labelRegex l"
  proof (cases "rest = []")
    case True
    with l a show ?thesis by (simp add: labelRegex_def lang_Chars_Times)
  next
    case False
    then have r: "rest = butlast rest @ [last rest]" by simp
    from v l False have "length (butlast rest) \<le> 61"
      "\<forall>c\<in>set (butlast rest). in_class cc_alnum_hyphen c" "in_class cc_alnum (last rest)"
      by (auto simp: validLabel_def alnum_iff list_all_iff dest: in_set_butlastD)
    then have "lang (Times (rep (Chars cc_alnum_hyphen) 0 61) (Chars cc_alnum))
                 (butlast rest @ [last rest])"
      by (intro lang_Times) (auto simp: lang_rep_Chars)
    with r have "lang (Times (rep (Chars cc_alnum_hyphen) 0 61) (Chars cc_alnum)) rest"
      by simp
    with l a show ?thesis by (simp add: labelRegex_def lang_Chars_Times)
  qed
qed

lemma validLabel_no_dot: "validLabel l \<Longrightarrow> dot \<notin> set l"
  by (auto simp: validLabel_def list_all_iff)

lemma split_not_Nil [simp]: "split d w \<noteq> []"
  by (induction w) (auto split: list.splits)

lemma split_no_sep: "d \<notin> set l \<Longrightarrow> split d l = [l]"
  by (induction l) auto

lemma split_append_sep: "d \<notin> set l \<Longrightarrow> split d (l @ d # w) = l # split d w"
  by (induction l) auto

lemma split_join: "split d w = p # ps \<Longrightarrow> w = p @ concat (map ((#) d) ps)"
proof (induction w arbitrary: p ps)
  case Nil
  then show ?case by simp
next
  case (Cons c w)
  show ?case
  proof (cases "c = d")
    case True
    with Cons.prems have "p = []" "ps = split d w" by auto
    moreover obtain q qs where "split d w = q # qs" by (cases "split d w") auto
    ultimately show ?thesis using Cons.IH True by auto
  next
    case False
    obtain q qs where q: "split d w = q # qs" by (cases "split d w") auto
    with False Cons.prems have "p = c # q" "ps = qs" by auto
    with Cons.IH [OF q] show ?thesis by simp
  qed
qed

lemma split_labels: "\<forall>l\<in>set (l # ls). d \<notin> set l \<Longrightarrow>
    split d (l @ concat (map ((#) d) ls)) = l # ls"
proof (induction ls arbitrary: l)
  case Nil
  then show ?case by (simp add: split_no_sep)
next
  case (Cons k ls)
  then show ?case by (simp add: split_append_sep)
qed

lemma lang_dot_labels_star:
  "lang R x \<Longrightarrow> R = Star (Times (Chars cc_dot) labelRegex) \<Longrightarrow>
     \<exists>ls. list_all validLabel ls \<and> x = concat (map ((#) dot) ls)"
proof (induction rule: lang.induct)
  case (lang_Star_Nil r)
  have "list_all validLabel [] \<and> [] = concat (map ((#) dot) [])" by simp
  then show ?case by blast
next
  case (lang_Star_Cons r u v)
  then obtain ls where ls: "list_all validLabel ls" "v = concat (map ((#) dot) ls)" by auto
  from lang_Star_Cons obtain l where "u = dot # l" "validLabel l"
    by (auto simp: lang_Chars_Times lang_labelRegex)
  with ls have "list_all validLabel (l # ls) \<and> u @ v = concat (map ((#) dot) (l # ls))"
    by simp
  then show ?case by blast
qed simp_all

lemma labels_lang_star:
  "list_all validLabel ls \<Longrightarrow>
     lang (Star (Times (Chars cc_dot) labelRegex)) (concat (map ((#) dot) ls))"
proof (induction ls)
  case Nil
  then show ?case by (simp add: lang_Star_Nil)
next
  case (Cons l ls)
  then have "lang (Times (Chars cc_dot) labelRegex) (dot # l)"
    by (simp add: lang_Chars_Times lang_labelRegex)
  moreover from Cons have "lang (Star (Times (Chars cc_dot) labelRegex)) (concat (map ((#) dot) ls))"
    by simp
  ultimately have "lang (Star (Times (Chars cc_dot) labelRegex))
      ((dot # l) @ concat (map ((#) dot) ls))"
    by (rule lang_Star_Cons)
  then show ?case by simp
qed

lemma lang_domainRegex: "lang domainRegex w \<longleftrightarrow> list_all validLabel (split dot w)"
proof
  assume "lang domainRegex w"
  then obtain l x where w: "w = l @ x" and l: "validLabel l"
    and x: "lang (Star (Times (Chars cc_dot) labelRegex)) x"
    by (auto simp: domainRegex_def lang_Times_iff lang_labelRegex)
  from x obtain ls where ls: "list_all validLabel ls" "x = concat (map ((#) dot) ls)"
    using lang_dot_labels_star by blast
  with l have "\<forall>k\<in>set (l # ls). dot \<notin> set k"
    by (auto simp: list_all_iff validLabel_no_dot)
  then have "split dot (l @ concat (map ((#) dot) ls)) = l # ls" by (rule split_labels)
  with w l ls show "list_all validLabel (split dot w)" by simp
next
  assume a: "list_all validLabel (split dot w)"
  obtain p ps where s: "split dot w = p # ps" by (cases "split dot w") auto
  then have w: "w = p @ concat (map ((#) dot) ps)" by (rule split_join)
  from a s have "lang labelRegex p" "lang (Star (Times (Chars cc_dot) labelRegex)) (concat (map ((#) dot) ps))"
    by (simp_all add: lang_labelRegex labels_lang_star)
  then have "lang domainRegex (p @ concat (map ((#) dot) ps))"
    unfolding domainRegex_def by (rule lang_Times)
  with w show "lang domainRegex w" by simp
qed

lemma isValidDomain_iff:
  "isValidDomain domain \<longleftrightarrow> domain \<noteq> [] \<and> list_all validLabel (labels domain)"
  by (simp add: isValidDomain_def labels_def matches_lang lang_domainRegex)

subsection \<open>The counters of getRuleStats\<close>

lemma loop_total: "total (getRuleStats_loop rules U st) = total st"
  by (induction rules U st rule: getRuleStats_loop.induct) simp_all

lemma loop_empty:
  "empty (getRuleStats_loop rules U st) = empty st + length (filter blank rules)"
  by (induction rules U st rule: getRuleStats_loop.induct) simp_all

lemma loop_sum:
  "valid (getRuleStats_loop rules U st) + duplicate (getRuleStats_loop rules U st)
     = valid st + duplicate st + length (filter (\<lambda>r. \<not> blank r) rules)"
  by (induction rules U st rule: getRuleStats_loop.induct) simp_all

lemma loop_valid:
  "finite U \<Longrightarrow> valid (getRuleStats_loop rules U st)
     = valid st + card (set (filter (\<lambda>r. \<not> blank r) rules) - U)"
proof (induction rules U st rule: getRuleStats_loop.induct)
  case (1 U st)
  then show ?case by simp
next
  case (2 rule rules U st)
  show ?case
  proof (cases "blank rule")
    case True
    with 2 show ?thesis by simp
  next
    case nb: False
    show ?thesis
    proof (cases "rule \<in> U")
      case True
      then have "insert rule (set (filter (\<lambda>r. \<not> blank r) rules)) - U
          = set (filter (\<lambda>r. \<not> blank r) rules) - U" by auto
      with 2 nb True show ?thesis by simp
    next
      case False
      let ?S = "set (filter (\<lambda>r. \<not> blank r) rules)"
      have "insert rule ?S - U = insert rule (?S - insert rule U)"
        using False by auto
      moreover have "rule \<notin> ?S - insert rule U" by simp
      moreover have "finite (?S - insert rule U)" by simp
      ultimately have "card (insert rule ?S - U) = Suc (card (?S - insert rule U))"
        by (metis card_insert_disjoint)
      with 2 nb False show ?thesis by simp
    qed
  qed
qed

lemma loop_positions:
  "valid (getRuleStats_loop rules (set (filter (\<lambda>r. \<not> blank r) pre)) st)
      = valid st + length (occurrences (pre @ rules) (length pre) (length pre + length rules) False)
   \<and> duplicate (getRuleStats_loop rules (set (filter (\<lambda>r. \<not> blank r) pre)) st)
      = duplicate st + length (occurrences (pre @ rules) (length pre) (length pre + length rules) True)"
proof (induction rules arbitrary: pre st)
  case Nil
  show ?case by (simp add: occurrences_def)
next
  case (Cons r rules)
  let ?U = "set (filter (\<lambda>r. \<not> blank r) pre)"
  have U': "set (filter (\<lambda>r. \<not> blank r) (pre @ [r])) = (if blank r then ?U else insert r ?U)"
    by auto
  have idx: "[length pre..<Suc (length pre + length rules)]
      = length pre # [Suc (length pre)..<Suc (length pre + length rules)]"
    by (subst upt_rec) simp
  have mem: "\<not> blank r \<Longrightarrow> r \<in> set pre \<longleftrightarrow> r \<in> ?U" by auto
  have occurrences_step: "occurrences (pre @ r # rules) (length pre) (Suc (length pre + length rules)) b
      = (if \<not> blank r \<and> ((r \<in> ?U) = b) then [length pre] else [])
        @ occurrences (pre @ r # rules) (Suc (length pre)) (Suc (length pre + length rules)) b"
    for b
    unfolding occurrences_def idx using mem by (auto simp: nth_append)
  note IH = Cons.IH [of "pre @ [r]"]
  show ?case
  proof (cases "blank r")
    case True
    with IH [of "st\<lparr>empty := empty st + 1\<rparr>"] U' show ?thesis
      by (simp add: occurrences_step)
  next
    case nb: False
    show ?thesis
    proof (cases "r \<in> ?U")
      case True
      then have "insert r ?U = ?U" by auto
      with nb True IH [of "st\<lparr>duplicate := duplicate st + 1\<rparr>"] U' show ?thesis
        by (simp add: occurrences_step)
    next
      case False
      with nb IH [of "st\<lparr>valid := valid st + 1\<rparr>"] U' show ?thesis
        by (simp add: occurrences_step)
    qed
  qed
qed

lemma getRuleStats_positions:
  "valid (getRuleStats rules) = length (firstOccurrences rules)
   \<and> duplicate (getRuleStats rules) = length (laterOccurrences rules)"
  using loop_positions [of rules "[]" "\<lparr>total = length rules, empty = 0, duplicate = 0, valid = 0\<rparr>"]
  by (simp add: getRuleStats_def firstOccurrences_def laterOccurrences_def)

lemma getRuleStats_sum:
  "valid (getRuleStats rules) + duplicate (getRuleStats rules) + empty (getRuleStats rules)
     = total (getRuleStats rules)"
proof -
  have "length (filter (\<lambda>r. \<not> blank r) rules) + length (filter blank rules) = length rules"
    using sum_length_filter_compl [of blank rules] by simp
  then show ?thesis
    by (simp add: getRuleStats_def loop_total loop_empty loop_sum)
qed

lemma getRuleStats_example:
  "getRuleStats [js ''a'', js ''b'', js ''a'', js '''', js ''c'']
     = \<lparr>total = 5, empty = 1, duplicate = 1, valid = 3\<rparr>"
  by (simp add: getRuleStats_def blank_def trim_def isWhiteSpace_def js_def chr_def)

subsection \<open>The IPv4 expression and the filter\<close>

lemma lang_digits:
  "m \<le> n \<Longrightarrow> lang (rep (Chars cc_digit) m n) g \<longleftrightarrow> digitGroup m n g"
  by (auto simp: lang_rep_Chars digitGroup_def list_all_iff in_class_def cc_digit_def)

lemma lang_group_dot:
  "digitGroup 1 3 g \<Longrightarrow> lang (Times (rep (Chars cc_digit) 1 3) (Chars cc_dot)) (g @ js ''.'')"
  by (intro lang_Times) (simp_all add: lang_digits in_class_def cc_dot_def js_def)

lemma lang_ipv4:
  assumes "digitGroup 1 3 a" "digitGroup 1 3 b" "digitGroup 1 3 c" "digitGroup 1 3 d"
    and "digitGroup 1 2 p"
  shows "lang ipv4Regex (a @ js ''.'' @ b @ js ''.'' @ c @ js ''.'' @ d @ js ''/'' @ p)"
proof -
  let ?G = "Times (rep (Chars cc_digit) 1 3) (Chars cc_dot)"
  have "lang (Times ?G (Times ?G (Times ?G One)))
          ((a @ js ''.'') @ (b @ js ''.'') @ (c @ js ''.'') @ [])"
    using assms by (intro lang_Times lang_group_dot lang_One)
  then have three: "lang (exactly ?G 3) (a @ js ''.'' @ b @ js ''.'' @ c @ js ''.'')"
    by (simp add: numeral_3_eq_3)
  have "lang (Chars cc_slash) (js ''/'')"
    by (simp add: in_class_def cc_slash_def js_def)
  then have "lang (Times (rep (Chars cc_digit) 1 3) (Times (Chars cc_slash) (rep (Chars cc_digit) 1 2)))
          (d @ js ''/'' @ p)"
    using assms by (intro lang_Times) (simp_all add: lang_digits)
  with three have "lang ipv4Regex ((a @ js ''.'' @ b @ js ''.'' @ c @ js ''.'') @ d @ js ''/'' @ p)"
    unfolding ipv4Regex_def seq.simps by (rule lang_Times)
  then show ?thesis by simp
qed

lemma isValidCidr_shape:
  assumes "digitGroup 1 3 a" "digitGroup 1 3 b" "digitGroup 1 3 c" "digitGroup 1 3 d"
    and "digitGroup 1 2 p"
  shows "isValidCidr (a @ js ''.'' @ b @ js ''.'' @ c @ js ''.'' @ d @ js ''/'' @ p)"
proof -
  from assms(1) have "a \<noteq> []" by (auto simp: digitGroup_def)
  then show ?thesis using lang_ipv4 [OF assms]
    by (simp add: isValidCidr_def matches_lang)
qed

lemma isValidCidr_999: "isValidCidr (js ''999.1.1.1/33'')"
proof -
  have "isValidCidr (js ''999'' @ js ''.'' @ js ''1'' @ js ''.'' @ js ''1'' @ js ''.'' @ js ''1''
           @ js ''/'' @ js ''33'')"
    by (rule isValidCidr_shape) (simp_all add: digitGroup_def js_def chr_def)
  then show ?thesis by (simp add: js_def)
qed

lemma type_names_distinct:
  "js ''domain-suffix'' \<noteq> js ''ip-cidr''" "js ''domain-suffix'' \<noteq> js ''process-name''"
  "js ''ip-cidr'' \<noteq> js ''process-name''"
  by (simp_all add: js_def chr_def)

subsection \<open>Missing and empty sources\<close>

lemma parseTextFile_absent:
  "\<not> existsSync env (world s) p \<Longrightarrow>
     parseTextFile env p s = (Inr [], print ConsoleWarn (SourceFileNotFound p) s)"
  by (simp add: parseTextFile_def)

lemma parseTextFile_state:
  "parseTextFile env p s = (r, s') \<Longrightarrow>
     s' = s \<or> s' = print ConsoleWarn (SourceFileNotFound p) s"
  by (auto simp: parseTextFile_def split: if_splits sum.splits)

lemma emitted_append [simp]: "emitted s (s\<lparr>console := console s @ xs\<rparr>) = xs"
  by (simp add: emitted_def)

lemma buildRule_absent:
  assumes absent: "\<not> existsSync env (world s) (path_join env (sourcesDir env) sourceFile)"
  shows "buildRule env type sourceFile outputFile s =
          (None, s\<lparr>console := console s @
             [(ConsoleLog, BuildingRule type sourceFile),
              (ConsoleWarn, SourceFileNotFound (path_join env (sourcesDir env) sourceFile)),
              (ConsoleLog, FoundRules 0 sourceFile),
              (ConsoleWarn, NoRulesFound sourceFile)]\<rparr>)"
  using absent
  by (simp add: buildRule_def buildRule_try_def parseTextFile_def print_def)

lemma validateSourceFile_absent:
  assumes absent: "\<not> existsSync env (world s) (path_join env (sourcesDir env) sourceFile)"
  shows "validateSourceFile env sourceFile type s =
          (\<lparr>sr_file = sourceFile, sr_type = type, sr_valid = False,
            sr_errors = [js ''Source file not found: '' @ path_join env (sourcesDir env) sourceFile],
            sr_warnings = [],
            sr_stats = \<lparr>vs_total = 0, vs_valid = 0, vs_invalid = 0, vs_duplicate = 0\<rparr>\<rparr>,
           print ConsoleLog (Validating sourceFile type) s)"
  using absent
  by (simp add: validateSourceFile_def validateSourceFile_try_def FileUtils_exists_def print_def)

lemma validateSourceFile_world: "world (snd (validateSourceFile env f t s)) = world s"
  by (auto simp: validateSourceFile_def validateSourceFile_try_def parseTextFile_def Let_def
        print_def split: prod.splits sum.splits option.splits if_splits)

lemma validateSources_world:
  "world (snd (validateSources env configs results s)) = world s"
proof (induction configs arbitrary: results s)
  case Nil
  show ?case by simp
next
  case (Cons c configs)
  obtain f t where c: "c = (f, t)" by (cases c)
  obtain r s1 where r: "validateSourceFile env f t s = (r, s1)"
    by (cases "validateSourceFile env f t s")
  with validateSourceFile_world [of env f t s] have "world s1 = world s" by simp
  with c r Cons show ?case by (simp add: Let_def)
qed

lemma validateSources_invalid_mono:
  "invalid_files (vr_summary results)
     \<le> invalid_files (vr_summary (fst (validateSources env configs results s)))"
proof (induction configs arbitrary: results s)
  case Nil
  show ?case by simp
next
  case (Cons c configs)
  obtain f t where c: "c = (f, t)" by (cases c)
  obtain r s1 where r: "validateSourceFile env f t s = (r, s1)"
    by (cases "validateSourceFile env f t s")
  show ?case
    unfolding c using r
    by (cases "sr_valid r") (auto simp: Let_def intro: order_trans [OF _ Cons])
qed

lemma validateSources_absent:
  assumes "(f, t) \<in> set configs"
    and "\<not> existsSync env (world s) (path_join env (sourcesDir env) f)"
  shows "invalid_files (vr_summary results)
           < invalid_files (vr_summary (fst (validateSources env configs results s)))"
  using assms
proof (induction configs arbitrary: results s)
  case Nil
  then show ?case by simp
next
  case (Cons c configs)
  obtain f' t' where c: "c = (f', t')" by (cases c)
  obtain r s1 where r: "validateSourceFile env f' t' s = (r, s1)"
    by (cases "validateSourceFile env f' t' s")
  with validateSourceFile_world [of env f' t' s] have w: "world s1 = world s" by simp
  let ?sm = "vr_summary results"
  let ?sm' = "if sr_valid r
              then ?sm\<lparr>valid_files := valid_files ?sm + 1,
                       sum_total_rules := sum_total_rules ?sm + vs_total (sr_stats r),
                       sum_valid_rules := sum_valid_rules ?sm + vs_valid (sr_stats r),
                       sum_invalid_rules := sum_invalid_rules ?sm + vs_invalid (sr_stats r)\<rparr>
              else ?sm\<lparr>invalid_files := invalid_files ?sm + 1\<rparr>"
  let ?results' = "results\<lparr>vr_sources := vr_sources results @ [r], vr_summary := ?sm'\<rparr>"
  have step: "validateSources env (c # configs) results s = validateSources env configs ?results' s1"
    using c r by (simp add: Let_def)
  show ?case
  proof (cases "c = (f, t)")
    case True
    with c r validateSourceFile_absent [OF Cons.prems(2), of t] have "\<not> sr_valid r" by simp
    then have "invalid_files ?sm < invalid_files (vr_summary ?results')" by simp
    also have "\<dots> \<le> invalid_files (vr_summary (fst (validateSources env configs ?results' s1)))"
      by (rule validateSources_invalid_mono)
    finally show ?thesis by (simp only: step)
  next
    case False
    with Cons.prems have "(f, t) \<in> set configs" by auto
    moreover from Cons.prems w
    have "\<not> existsSync env (world s1) (path_join env (sourcesDir env) f)" by simp
    ultimately have "invalid_files (vr_summary ?results')
        < invalid_files (vr_summary (fst (validateSources env configs ?results' s1)))"
      by (rule Cons.IH)
    moreover have "invalid_files ?sm \<le> invalid_files (vr_summary ?results')" by simp
    ultimately show ?thesis by (simp only: step)
  qed
qed

lemma validateTemplates_invalid_mono:
  "invalid_files (vr_summary results)
     \<le> invalid_files (vr_summary (fst (validateTemplates env templates results s)))"
proof (induction templates arbitrary: results s)
  case Nil
  show ?case by simp
next
  case (Cons c templates)
  obtain r s1 where r: "validateTemplate env c s = (r, s1)"
    by (cases "validateTemplate env c s")
  show ?case
    using r by (cases "tr_valid r") (auto simp: Let_def intro: order_trans [OF _ Cons])
qed

lemma validateAll_absent:
  assumes "(f, t) \<in> set sourceConfigs"
    and "\<not> existsSync env (world s) (path_join env (sourcesDir env) f)"
    and "validateAll env s = (Inr results, s')"
  shows "exitStatus_all results = 1"
proof -
  let ?r0 = "\<lparr>vr_sources = [], vr_templates = [],
             vr_summary = \<lparr>total_files = length sourceConfigs + length templateConfigs,
                           valid_files = 0, invalid_files = 0, sum_total_rules = 0,
                           sum_valid_rules = 0, sum_invalid_rules = 0\<rparr>\<rparr>"
  let ?s0 = "print ConsoleLog StartingValidation s"
  obtain r1 s1 where r1: "validateSources env sourceConfigs ?r0 ?s0 = (r1, s1)"
    by (cases "validateSources env sourceConfigs ?r0 ?s0")
  obtain r2 s2 where r2: "validateTemplates env templateConfigs r1 s1 = (r2, s2)"
    by (cases "validateTemplates env templateConfigs r1 s1")
  from assms(3) r1 r2 have res: "results = r2"
    by (auto simp: validateAll_def Let_def split: prod.splits sum.splits)
  have "\<not> existsSync env (world ?s0) (path_join env (sourcesDir env) f)"
    using assms(2) by (simp add: print_def)
  from validateSources_absent [OF assms(1) this, of ?r0] r1
  have "0 < invalid_files (vr_summary r1)" by simp
  also from validateTemplates_invalid_mono [of r1 env templateConfigs s1] r2
  have "\<dots> \<le> invalid_files (vr_summary r2)" by simp
  finally show ?thesis by (simp add: res exitStatus_all_def)
qed

subsection \<open>Templates\<close>

lemma checkRequiredFields_present:
  assumes "map_of kvs (js ''hasOwnProperty'') = None"
    and "\<forall>f \<in> set fs. map_of kvs f \<noteq> None"
  shows "checkRequiredFields (Obj kvs) fs result = (None, result)"
  using assms by (induction fs) auto

lemma typeof_string: "typeof v = js ''string'' \<longleftrightarrow> (\<exists>x. v = Str x)"
  by (cases v) (simp_all add: js_def chr_def)

text \<open>
  Where \<open>validateTemplate\<close> does what is expected of it: on a template with the four
  fields, a type that is a non-empty string and an object of rules, with no own property
  \<open>hasOwnProperty\<close> and a version that is 1 or can be converted to a string, the result is
  valid, and a version other than 1 adds one warning.
\<close>

lemma validateTemplate_rendered_version:
  assumes exists: "existsSync env (world s) (path_join env (templatesDir env) templateFile)"
    and read: "FileUtils_readJsonFile env (path_join env (templatesDir env) templateFile)
                 (print ConsoleLog (ValidatingTemplate templateFile) s) = Inr (Obj kvs)"
    and version: "map_of kvs (js ''version'') = Some tversion"
    and shown: "tversion = Num 1 \<or> ToString env tversion = Inr shown"
    and rules: "map_of kvs (js ''rules'') = Some (Obj r)"
    and description: "map_of kvs (js ''description'') = Some tdescription"
    and type: "map_of kvs (js ''type'') = Some (Str t)" "t \<noteq> []"
    and noshadow: "map_of kvs (js ''hasOwnProperty'') = None"
  shows "fst (validateTemplate env templateFile s) =
           \<lparr>tr_file = templateFile, tr_valid = True, tr_errors = [],
            tr_warnings = (if tversion = Num 1 then []
                           else [js ''Unexpected version: '' @ shown @ js '' (expected: 1)''])\<rparr>"
proof -
  have req: "checkRequiredFields (Obj kvs) requiredFields result = (None, result)" for result
    by (rule checkRequiredFields_present)
       (use version rules description type noshadow in \<open>auto simp: requiredFields_def\<close>)
  have "checkTemplate env (Obj kvs) result =
         (None, if tversion \<noteq> Num 1
                then result\<lparr>tr_warnings := tr_warnings result
                               @ [js ''Unexpected version: '' @ shown @ js '' (expected: 1)'']\<rparr>
                else result)" for result
    using version shown rules type by (auto simp: checkTemplate_def req typeof_string)
  then show ?thesis
    using exists read
    by (simp add: validateTemplate_def FileUtils_exists_def print_def Let_def)
qed

text \<open>
  Where it does not: the version is not 1 and its conversion to a string throws.  The
  \<open>catch\<close> records the exception as an error and the result is not valid.
\<close>

lemma validateTemplate_unconvertible_version:
  assumes exists: "existsSync env (world s) (path_join env (templatesDir env) templateFile)"
    and read: "FileUtils_readJsonFile env (path_join env (templatesDir env) templateFile)
                 (print ConsoleLog (ValidatingTemplate templateFile) s) = Inr (Obj kvs)"
    and version: "map_of kvs (js ''version'') = Some tversion"
    and thrown: "tversion \<noteq> Num 1" "ToString env tversion = Inl e"
    and rules: "map_of kvs (js ''rules'') = Some (Obj r)"
    and description: "map_of kvs (js ''description'') = Some tdescription"
    and type: "map_of kvs (js ''type'') = Some (Str t)" "t \<noteq> []"
    and noshadow: "map_of kvs (js ''hasOwnProperty'') = None"
  shows "fst (validateTemplate env templateFile s) =
           \<lparr>tr_file = templateFile, tr_valid = False,
            tr_errors = [js ''Template validation failed: '' @ errorMessage env e],
            tr_warnings = []\<rparr>"
proof -
  have req: "checkRequiredFields (Obj kvs) requiredFields result = (None, result)" for result
    by (rule checkRequiredFields_present)
       (use version rules description type noshadow in \<open>auto simp: requiredFields_def\<close>)
  have "checkTemplate env (Obj kvs) result = (Some e, result)" for result
    using version thrown by (simp add: checkTemplate_def req)
  then show ?thesis
    using exists read
    by (simp add: validateTemplate_def FileUtils_exists_def print_def Let_def)
qed

lemma ToString_object_with_toString:
  "map_of kvs (js ''toString'') \<noteq> None \<Longrightarrow> ToString env (Obj kvs) = Inl TypeError"
  by (simp add: ToString_def)

subsection \<open>The builder and its fallback\<close>

lemma effect_Inr:
  "effect f s = (Inr u, s') \<longleftrightarrow> (\<exists>w. f (world s) = (None, w) \<and> s' = s\<lparr>world := w\<rparr>)"
  by (auto simp: effect_def split: prod.splits option.splits)

lemma effect_Inl:
  "effect f s = (Inl e, s') \<longleftrightarrow> (\<exists>w. f (world s) = (Some e, w) \<and> s' = s\<lparr>world := w\<rparr>)"
  by (auto simp: effect_def split: prod.splits option.splits)

lemma compileWithSingBox_True_iff:
  "fst (compileWithSingBox env ruleData outputFile s) = Inr True
     \<longleftrightarrow> binaryCompiled env ruleData outputFile s"
proof (cases "ruleSetDocument env (Num 2) ruleData")
  case (Inl e)
  then show ?thesis by (simp add: compileWithSingBox_def binaryCompiled_def)
next
  case (Inr ruleSet)
  obtain r1 w1 where written:
    "writeFileSync env (world s) (tempJsonFile env s) (JSON_stringify env ruleSet) = (r1, w1)"
    by (cases "writeFileSync env (world s) (tempJsonFile env s) (JSON_stringify env ruleSet)")
  obtain r2 w2 where run:
    "execSync env w1 (compileCommand outputFile (tempJsonFile env s)) = (r2, w2)"
    by (cases "execSync env w1 (compileCommand outputFile (tempJsonFile env s))")
  show ?thesis
    using Inr written run
    by (cases r1; cases r2; cases "statSync_size env w2 outputFile")
       (simp_all add: compileWithSingBox_def binaryCompiled_def Let_def effect_def print_def)
qed

lemma buildWithSingBox_result:
  "buildWithSingBox env ruleData outputFile s = (Inr b, s') \<Longrightarrow>
     b \<longleftrightarrow> binaryCompiled env ruleData outputFile (snd (ensureTempDir env s))"
  by (auto simp: buildWithSingBox_def Let_def compileWithSingBox_True_iff [symmetric]
           split: prod.splits sum.splits)

lemma buildFallback_written:
  "fallbackDocument env ruleData = Inr document \<Longrightarrow>
   writeFileSync env (world s) (fallbackFile outputFile) document = (None, w)
   \<Longrightarrow> buildFallback env ruleData outputFile s
        = (True, print ConsoleLog (BuiltFallbackFile (fallbackFile outputFile)) (s\<lparr>world := w\<rparr>))"
  by (simp add: buildFallback_def effect_def)

lemma buildFallback_unconvertible_type:
  "ToString env (ruleTypeOf ruleData) = Inl e \<Longrightarrow>
     buildFallback env ruleData outputFile s = (False, print ConsoleError (FallbackBuildFailed e) s)"
  by (simp add: buildFallback_def fallbackDocument_def ruleSetDocument_def rulesOf_def)

lemma buildSrsFile_fallback:
  assumes "ensureOutputDir env outputFile s = (Inr (), s1)"
    and "buildWithSingBox env ruleData outputFile s1 = (Inr False, s2)"
    and "fallbackDocument env ruleData = Inr document"
    and "writeFileSync env (world s2) (fallbackFile outputFile) document = (None, w)"
  shows "buildSrsFile env ruleData outputFile s
           = (Inr True, print ConsoleLog (BuiltFallbackFile (fallbackFile outputFile))
                          (s2\<lparr>world := w\<rparr>))"
  using assms by (simp add: buildSrsFile_def buildFallback_written)

lemma buildAll_loop_append:
  "buildAll_loop env (xs @ ys) results totalRules s
     = (case buildAll_loop env xs results totalRules s of
          ((results1, totalRules1), s1) \<Rightarrow> buildAll_loop env ys results1 totalRules1 s1)"
proof (induction xs arbitrary: results totalRules s)
  case Nil
  show ?case by simp
next
  case (Cons x xs)
  show ?case
    by (cases "buildRule env (cfg_type x) (cfg_source x) (cfg_output x) s")
       (auto simp: Cons split: option.splits)
qed

lemma buildAll_loop_success_mono:
  "set (br_success results)
     \<subseteq> set (br_success (fst (fst (buildAll_loop env configs results totalRules s))))"
proof (induction configs arbitrary: results totalRules s)
  case Nil
  show ?case by simp
next
  case (Cons config configs)
  show ?case
  proof (cases "buildRule env (cfg_type config) (cfg_source config) (cfg_output config) s")
    case (Pair r s1)
    show ?thesis
    proof (cases r)
      case None
      with Pair Cons [of "results\<lparr>br_skipped := br_skipped results @ [config]\<rparr>" totalRules s1]
      show ?thesis by simp
    next
      case (Some a)
      with Pair Cons [of "results\<lparr>br_success := br_success results @ [a]\<rparr>"
                         "totalRules + length (a_rules a)" s1]
      show ?thesis by simp
    qed
  qed
qed

lemma buildAll_loop_records:
  assumes "buildRule env (cfg_type config) (cfg_source config) (cfg_output config) s = (Some a, s1)"
  shows "a \<in> set (br_success (fst (fst (buildAll_loop env (config # configs) results totalRules s))))"
  using assms
    buildAll_loop_success_mono [of "results\<lparr>br_success := br_success results @ [a]\<rparr>" env configs
      "totalRules + length (a_rules a)" s1]
  by auto

lemma buildAll_unfold:
  "buildAll_loop env ruleConfigs
     \<lparr>br_success = [], br_failed = [], br_skipped = [], br_summary = None\<rparr> 0
     (print ConsoleLog StartingBuild t) = ((res, n), s1) \<Longrightarrow>
   buildAll env t =
     (case generateBuildReport env
             (res\<lparr>br_summary := Some \<lparr>total_configs = length ruleConfigs,
                                       success_count = length (br_success res),
                                       failed_count = length (br_failed res),
                                       skipped_count = length (br_skipped res),
                                       total_rules = n\<rparr>\<rparr>)
             \<lparr>total_configs = length ruleConfigs,
              success_count = length (br_success res),
              failed_count = length (br_failed res),
              skipped_count = length (br_skipped res),
              total_rules = n\<rparr> s1 of
        (Inl e, s2) \<Rightarrow> (Inl e, s2)
      | (Inr u, s2) \<Rightarrow>
          (Inr (res\<lparr>br_summary := Some \<lparr>total_configs = length ruleConfigs,
                                         success_count = length (br_success res),
                                         failed_count = length (br_failed res),
                                         skipped_count = length (br_skipped res),
                                         total_rules = n\<rparr>\<rparr>), s2))"
  by (simp add: buildAll_def Let_def)

lemma buildFromTemplate_unconvertible_type:
  assumes "getField template (js ''version'') = Inr tversion"
    and "getField template (js ''type'') = Inr ttype"
    and "getField template (js ''description'') = Inr tdescription"
    and "ToString env ttype = Inl e"
  shows "buildFromTemplate env type sourceFile outputFile validRules st template s = (Inl e, s)"
  using assms by (simp add: buildFromTemplate_def)

lemma buildRule_artifact:
  assumes parse: "parseTextFile env (path_join env (sourcesDir env) sourceFile)
                    (print ConsoleLog (BuildingRule type sourceFile) s) = (Inr rules, s1)"
    and valid: "filterValidRules rules type \<noteq> []"
    and template: "loadTemplate env outputFile type
                    (print ConsoleLog (RuleStats (getRuleStats rules))
                      (print ConsoleLog (ValidRulesCount (length (filterValidRules rules type))
                                           (length rules - length (filterValidRules rules type)))
                        (print ConsoleLog (FoundRules (length rules) sourceFile) s1)))
                   = (Inr template, s2)"
    and fields: "getField template (js ''version'') = Inr tversion"
                "getField template (js ''type'') = Inr ttype"
                "getField template (js ''description'') = Inr tdescription"
    and key: "ToString env ttype = Inr key"
    and build: "buildSrsFile env
                  (ruleDataOf tversion ttype key tdescription (filterValidRules rules type)
                     (ruleMetadata env sourceFile (filterValidRules rules type) (getRuleStats rules) s2))
                  (path_join env (distDir env) outputFile) s2 = (Inr True, s3)"
  shows "buildRule env type sourceFile outputFile s =
           (Some \<lparr>a_type = type, a_source = sourceFile, a_output = outputFile,
                   a_rules = filterValidRules rules type,
                   a_metadata = ruleMetadata env sourceFile (filterValidRules rules type)
                                  (getRuleStats rules) s2\<rparr>, s3)"
proof -
  from valid have "rules \<noteq> []" by (auto simp: filterValidRules_def)
  with assms show ?thesis
    by (simp add: buildRule_def buildRule_try_def buildFromTemplate_def Let_def)
qed

subsection \<open>Running the scripts in memory\<close>

lemmas run_simps = node1_def memory_node_def js_def chr_def sourcesDir_def templatesDir_def
  distDir_def tempDir_def print_def state1_def state0_def world1_def effect_def Let_def
  parseTextFile_def LF_def trim_def isWhiteSpace_def isRuleLine_def startsWith_def
  FileUtils_exists_def FileUtils_readFile_def FileUtils_readJsonFile_def FileUtils_ensureDir_def
  ToString_def

lemma node1_report_written:
  "fst (generateBuildReport node1 results sm s) = Inr ()"
  by (simp add: generateBuildReport_def FileUtils_writeJsonFile_def FileUtils_writeFile_def
        FileUtils_ensureDir_def effect_def node1_def memory_node_def Let_def)

section \<open>The claims\<close>

text \<open>
  C3.  \<open>getRuleStats\<close> makes one pass from left to right: the first occurrence of each
  non-blank string counts as valid and every later occurrence of it as duplicate; on
  \<open>["a","b","a","","c"]\<close> it returns total 5, empty 1, duplicate 1, valid 3; and for every
  list of strings, valid + duplicate + empty = total.
\<close>

theorem getRuleStats_single_pass:
  "valid (getRuleStats rules) = length (firstOccurrences rules)
   \<and> duplicate (getRuleStats rules) = length (laterOccurrences rules)
   \<and> getRuleStats [js ''a'', js ''b'', js ''a'', js '''', js ''c'']
       = \<lparr>total = 5, empty = 1, duplicate = 1, valid = 3\<rparr>
   \<and> valid (getRuleStats rules) + duplicate (getRuleStats rules) + empty (getRuleStats rules)
       = total (getRuleStats rules)"
  by (intro conjI getRuleStats_example getRuleStats_sum
        conjunct1 [OF getRuleStats_positions] conjunct2 [OF getRuleStats_positions])

theorem getRuleStats_single_pass_witness:
  "length (firstOccurrences [js ''x'', js ''y'', js ''x'']) = 2
   \<and> length (laterOccurrences [js ''x'', js ''y'', js ''x'']) = 1"
proof -
  let ?rules = "[js ''x'', js ''y'', js ''x'']"
  have "getRuleStats ?rules = \<lparr>total = 3, empty = 0, duplicate = 1, valid = 2\<rparr>"
    by (simp add: getRuleStats_def blank_def trim_def isWhiteSpace_def js_def chr_def)
  with getRuleStats_single_pass [of ?rules] show ?thesis by simp
qed

text \<open>
  C4.  For a type other than \<open>domain-suffix\<close>, \<open>ip-cidr\<close> and \<open>process-name\<close>,
  \<open>filterValidRules\<close> returns the list unchanged; for these three types it keeps exactly
  the elements that satisfy \<open>isValidDomain\<close>, \<open>isValidCidr\<close> and \<open>isValidProcessName\<close>.
\<close>

theorem filterValidRules_by_type:
  "(type \<notin> {js ''domain-suffix'', js ''ip-cidr'', js ''process-name''}
      \<longrightarrow> filterValidRules rules type = rules)
   \<and> filterValidRules rules (js ''domain-suffix'') = filter isValidDomain rules
   \<and> filterValidRules rules (js ''ip-cidr'') = filter isValidCidr rules
   \<and> filterValidRules rules (js ''process-name'') = filter isValidProcessName rules"
  using type_names_distinct by (simp add: filterValidRules_def)

theorem filterValidRules_by_type_witness:
  "js ''geoip'' \<notin> {js ''domain-suffix'', js ''ip-cidr'', js ''process-name''}
   \<and> filterValidRules [js ''not a rule!'', js ''''] (js ''geoip'') = [js ''not a rule!'', js '''']"
proof -
  have h: "js ''geoip'' \<notin> {js ''domain-suffix'', js ''ip-cidr'', js ''process-name''}"
    by (simp add: js_def chr_def)
  with filterValidRules_by_type [of "js ''geoip''" "[js ''not a rule!'', js '''']"]
  show ?thesis by blast
qed

text \<open>
  C5.  \<open>isValidDomain\<close> strips one leading dot and then matches the label grammar: a
  non-empty string is valid exactly when each of its labels is 1 to 63 letters, digits or
  hyphens with no hyphen first or last; \<open>example.com\<close> and \<open>.example.com\<close> are valid,
  \<open>-bad-.com\<close> is not (nor \<open>..example.com\<close>, only one dot being stripped); and a string with
  an empty label, a label that starts with a hyphen or a label of underscores only is not
  valid.
\<close>

theorem isValidDomain_label_grammar:
  "(isValidDomain domain \<longleftrightarrow> domain \<noteq> [] \<and> list_all validLabel (labels domain))
   \<and> cleanDomain (dot # rest) = rest
   \<and> (hd domain \<noteq> dot \<longrightarrow> cleanDomain domain = domain)
   \<and> isValidDomain (js ''example.com'')
   \<and> isValidDomain (js ''.example.com'')
   \<and> \<not> isValidDomain (js ''-bad-.com'')
   \<and> \<not> isValidDomain (js ''..example.com'')
   \<and> ((\<exists>l \<in> set (labels domain). l = [] \<or> hd l = hyphen \<or> underscoreOnly l)
        \<longrightarrow> \<not> isValidDomain domain)"
proof (intro conjI)
  show "isValidDomain domain \<longleftrightarrow> domain \<noteq> [] \<and> list_all validLabel (labels domain)"
    by (rule isValidDomain_iff)
  show "cleanDomain (dot # rest) = rest"
    by (simp add: cleanDomain_def startsWith_def js_def dot_def)
  show "hd domain \<noteq> dot \<longrightarrow> cleanDomain domain = domain"
    by (cases domain) (simp_all add: cleanDomain_def startsWith_def js_def dot_def)
  show "isValidDomain (js ''example.com'')" by code_simp
  show "isValidDomain (js ''.example.com'')" by code_simp
  show "\<not> isValidDomain (js ''-bad-.com'')" by code_simp
  show "\<not> isValidDomain (js ''..example.com'')" by code_simp
  show "(\<exists>l \<in> set (labels domain). l = [] \<or> hd l = hyphen \<or> underscoreOnly l)
        \<longrightarrow> \<not> isValidDomain domain"
  proof
    assume "\<exists>l \<in> set (labels domain). l = [] \<or> hd l = hyphen \<or> underscoreOnly l"
    then obtain l where l: "l \<in> set (labels domain)"
      and bad: "l = [] \<or> hd l = hyphen \<or> underscoreOnly l" by blast
    from bad have "\<not> validLabel l"
    proof (elim disjE)
      assume "underscoreOnly l"
      then obtain c cs where "l = c # cs" "c = underscore"
        by (cases l) (auto simp: underscoreOnly_def)
      then show ?thesis by (simp add: validLabel_def)
    qed (simp_all add: validLabel_def)
    with l show "\<not> isValidDomain domain"
      by (auto simp: isValidDomain_iff list_all_iff)
  qed
qed

theorem isValidDomain_label_grammar_witness:
  "(\<exists>l \<in> set (labels (js ''a..b'')). l = [] \<or> hd l = hyphen \<or> underscoreOnly l)
   \<and> \<not> isValidDomain (js ''a..b'')"
proof -
  have "labels (js ''a..b'') = [js ''a'', [], js ''b'']"
    by (simp add: labels_def cleanDomain_def startsWith_def js_def chr_def dot_def)
  then have h: "\<exists>l \<in> set (labels (js ''a..b'')). l = [] \<or> hd l = hyphen \<or> underscoreOnly l"
    by simp
  with isValidDomain_label_grammar [of "js ''a..b''"] show ?thesis by blast
qed

text \<open>
  C6.  \<open>isValidCidr\<close> checks the shape only: four groups of one to three digits joined by
  dots, then a slash and one or two digits, always pass, whatever the numbers are;
  \<open>999.1.1.1/33\<close> passes.
\<close>

theorem isValidCidr_shape_only:
  "(digitGroup 1 3 a \<and> digitGroup 1 3 b \<and> digitGroup 1 3 c \<and> digitGroup 1 3 d
      \<and> digitGroup 1 2 p
      \<longrightarrow> isValidCidr (a @ js ''.'' @ b @ js ''.'' @ c @ js ''.'' @ d @ js ''/'' @ p))
   \<and> isValidCidr (js ''999.1.1.1/33'')"
  using isValidCidr_shape [of a b c d p] isValidCidr_999 by blast

theorem isValidCidr_shape_only_witness:
  "digitGroup 1 3 (js ''256'') \<and> digitGroup 1 3 (js ''0'') \<and> digitGroup 1 3 (js ''00'')
   \<and> digitGroup 1 3 (js ''1'') \<and> digitGroup 1 2 (js ''99'')
   \<and> isValidCidr (js ''256.0.00.1/99'')"
proof -
  have h: "digitGroup 1 3 (js ''256'') \<and> digitGroup 1 3 (js ''0'') \<and> digitGroup 1 3 (js ''00'')
      \<and> digitGroup 1 3 (js ''1'') \<and> digitGroup 1 2 (js ''99'')"
    by (simp add: digitGroup_def js_def chr_def)
  have "js ''256'' @ js ''.'' @ js ''0'' @ js ''.'' @ js ''00'' @ js ''.'' @ js ''1'' @ js ''/''
          @ js ''99'' = js ''256.0.00.1/99''"
    by (simp add: js_def)
  with h isValidCidr_shape_only [of "js ''256''" "js ''0''" "js ''00''" "js ''1''" "js ''99''"]
  show ?thesis by metis
qed

text \<open>
  C9.  \<open>filterValidRules\<close> returns a subsequence of its input, in the same order, and
  filtering twice is filtering once.
\<close>

theorem filterValidRules_subseq_idempotent:
  "subseq (filterValidRules rules type) rules
   \<and> filterValidRules (filterValidRules rules type) type = filterValidRules rules type"
proof
  show "subseq (filterValidRules rules type) rules"
    unfolding filterValidRules_def by (rule subseq_filter_left)
  show "filterValidRules (filterValidRules rules type) type = filterValidRules rules type"
    unfolding filterValidRules_def by (simp add: filter_filter)
qed

theorem filterValidRules_subseq_idempotent_witness:
  "subseq (filterValidRules [js ''a.b'', js ''a b''] (js ''domain-suffix'')) [js ''a.b'', js ''a b'']"
  using filterValidRules_subseq_idempotent [of "[js ''a.b'', js ''a b'']" "js ''domain-suffix''"]
  by (rule conjunct1)

text \<open>
  C10.  In \<open>getRuleStats\<close> every occurrence of a blank string (empty after trimming) counts
  as empty, never as duplicate: valid is the number of distinct non-blank strings, and
  duplicate is the number of non-blank occurrences minus that number.
\<close>

theorem getRuleStats_blank_and_distinct:
  "empty (getRuleStats rules) = length (filter blank rules)
   \<and> valid (getRuleStats rules) = card (set (filter (\<lambda>r. \<not> blank r) rules))
   \<and> duplicate (getRuleStats rules)
       = length (filter (\<lambda>r. \<not> blank r) rules) - card (set (filter (\<lambda>r. \<not> blank r) rules))"
proof -
  let ?st = "\<lparr>total = length rules, empty = 0, duplicate = 0, valid = 0\<rparr>"
  have v: "valid (getRuleStats rules) = card (set (filter (\<lambda>r. \<not> blank r) rules))"
    using loop_valid [of "{}" rules ?st] by (simp add: getRuleStats_def)
  have "valid (getRuleStats rules) + duplicate (getRuleStats rules)
      = length (filter (\<lambda>r. \<not> blank r) rules)"
    using loop_sum [of rules "{}" ?st] by (simp add: getRuleStats_def)
  with v show ?thesis by (simp add: getRuleStats_def loop_empty)
qed

theorem getRuleStats_blank_and_distinct_witness:
  "length (filter blank [js '''', js '' '', js '''', js ''a'', js ''a'']) = 3"
proof -
  let ?rules = "[js '''', js '' '', js '''', js ''a'', js ''a'']"
  have "getRuleStats ?rules = \<lparr>total = 5, empty = 3, duplicate = 1, valid = 1\<rparr>"
    by (simp add: getRuleStats_def blank_def trim_def isWhiteSpace_def js_def chr_def)
  with getRuleStats_blank_and_distinct [of ?rules] show ?thesis by simp
qed

text \<open>
  C7.  \<open>buildRule\<close> returns \<open>null\<close> and writes nothing whenever the parsed source has no
  line or the filter leaves no valid rule: the world is unchanged, what it prints is printed
  with \<open>console.log\<close> or \<open>console.warn\<close>, never \<open>console.error\<close>, and the last line is
  the warning that the source is skipped.
\<close>

theorem buildRule_skips_without_rules:
  assumes parse: "parseTextFile env (path_join env (sourcesDir env) sourceFile)
                    (print ConsoleLog (BuildingRule type sourceFile) s) = (Inr rules, s1)"
    and none: "rules = [] \<or> filterValidRules rules type = []"
  shows "fst (buildRule env type sourceFile outputFile s) = None
    \<and> world (snd (buildRule env type sourceFile outputFile s)) = world s
    \<and> console (snd (buildRule env type sourceFile outputFile s))
         = console s @ emitted s (snd (buildRule env type sourceFile outputFile s))
    \<and> (\<forall>(m, msg) \<in> set (emitted s (snd (buildRule env type sourceFile outputFile s))).
          m \<noteq> ConsoleError)
    \<and> last (emitted s (snd (buildRule env type sourceFile outputFile s)))
         = (ConsoleWarn, if rules = [] then NoRulesFound sourceFile
                         else NoValidRulesFound sourceFile)"
proof -
  let ?s0 = "print ConsoleLog (BuildingRule type sourceFile) s"
  from parseTextFile_state [OF parse]
  have s1: "s1 = ?s0 \<or> s1 = print ConsoleWarn
                (SourceFileNotFound (path_join env (sourcesDir env) sourceFile)) ?s0" .
  then show ?thesis
    using parse none
    by (auto simp: buildRule_def buildRule_try_def Let_def print_def emitted_def)
qed

theorem buildRule_skips_without_rules_witness:
  "filterValidRules [js ''bad_domain!''] (js ''domain-suffix'') = []
   \<and> fst (buildRule node1 (js ''domain-suffix'') (js ''proxy-domains.txt'')
             (js ''proxy-domains.srs'') state1) = None
   \<and> world (snd (buildRule node1 (js ''domain-suffix'') (js ''proxy-domains.txt'')
                    (js ''proxy-domains.srs'') state1)) = world state1"
proof -
  have parse: "parseTextFile node1 (path_join node1 (sourcesDir node1) (js ''proxy-domains.txt''))
        (print ConsoleLog (BuildingRule (js ''domain-suffix'') (js ''proxy-domains.txt'')) state1)
      = (Inr [js ''bad_domain!''],
         print ConsoleLog (BuildingRule (js ''domain-suffix'') (js ''proxy-domains.txt'')) state1)"
    by (simp add: run_simps)
  have none: "filterValidRules [js ''bad_domain!''] (js ''domain-suffix'') = []"
    by code_simp
  then have "[js ''bad_domain!''] = [] \<or> filterValidRules [js ''bad_domain!''] (js ''domain-suffix'') = []"
    by simp
  from buildRule_skips_without_rules [OF parse this, of "js ''proxy-domains.srs''"] none
  show ?thesis by blast
qed

text \<open>
  C2, as the claim states it, fails for the validator: on a world without files,
  \<open>validateSourceFile\<close> records the absence of \<open>direct-ips.txt\<close> as an error, with no
  warning, the result is not valid, and the exit status of \<open>source\<close> is 1.
\<close>

theorem absent_source_validator_counterexample:
  "\<not> existsSync node1 (world state0) (path_join node1 (sourcesDir node1) (js ''direct-ips.txt''))
   \<and> sr_valid (fst (validateSourceFile node1 (js ''direct-ips.txt'') (js ''ip-cidr'') state0)) = False
   \<and> sr_errors (fst (validateSourceFile node1 (js ''direct-ips.txt'') (js ''ip-cidr'') state0))
       = [js ''Source file not found: /s/../sources/direct-ips.txt'']
   \<and> sr_warnings (fst (validateSourceFile node1 (js ''direct-ips.txt'') (js ''ip-cidr'') state0)) = []
   \<and> exitStatus_source
         (fst (validateSourceFile node1 (js ''direct-ips.txt'') (js ''ip-cidr'') state0)) = 1"
  by (simp add: validateSourceFile_def validateSourceFile_try_def exitStatus_source_def run_simps)

text \<open>
  C2, amended.  When the source file of a config is absent: \<open>buildRule\<close> prints warnings
  and no error, writes nothing and returns \<open>null\<close>, and the loop of \<open>buildAll\<close> records
  the config as skipped and goes on with the remaining configs; \<open>validateSourceFile\<close>
  records the error \<open>Source file not found\<close> and no warning, its result is not valid (exit
  status 1 for \<open>source\<close>), the loop of \<open>validateAll\<close> counts the file as invalid and
  goes on with the remaining configs, and the exit status of \<open>all\<close> is 1.
\<close>

theorem absent_source_skipped_or_invalid:
  assumes absent: "\<not> existsSync env (world s) (path_join env (sourcesDir env) sourceFile)"
  shows "(\<exists>s'. buildRule env type sourceFile outputFile s = (None, s')
            \<and> world s' = world s
            \<and> (ConsoleWarn, NoRulesFound sourceFile) \<in> set (emitted s s')
            \<and> (\<forall>(m, msg) \<in> set (emitted s s'). m \<noteq> ConsoleError)
            \<and> (\<forall>configs results totalRules.
                  buildAll_loop env
                    (\<lparr>cfg_type = type, cfg_source = sourceFile, cfg_output = outputFile\<rparr> # configs)
                    results totalRules s
                  = buildAll_loop env configs
                      (results\<lparr>br_skipped := br_skipped results
                          @ [\<lparr>cfg_type = type, cfg_source = sourceFile, cfg_output = outputFile\<rparr>]\<rparr>)
                      totalRules s'))
       \<and> (\<exists>r s'. validateSourceFile env sourceFile type s = (r, s')
            \<and> world s' = world s
            \<and> sr_valid r = False
            \<and> sr_errors r = [js ''Source file not found: '' @ path_join env (sourcesDir env) sourceFile]
            \<and> sr_warnings r = []
            \<and> exitStatus_source r = 1
            \<and> (\<forall>configs results.
                  validateSources env ((sourceFile, type) # configs) results s
                  = validateSources env configs
                      (results\<lparr>vr_sources := vr_sources results @ [r],
                         vr_summary := (vr_summary results)
                           \<lparr>invalid_files := invalid_files (vr_summary results) + 1\<rparr>\<rparr>) s'))
       \<and> (\<forall>results s'.
             (sourceFile, type) \<in> set sourceConfigs \<and> validateAll env s = (Inr results, s')
             \<longrightarrow> exitStatus_all results = 1)"
proof (intro conjI)
  note b = buildRule_absent [OF absent, of type outputFile]
  show "\<exists>s'. buildRule env type sourceFile outputFile s = (None, s')
            \<and> world s' = world s
            \<and> (ConsoleWarn, NoRulesFound sourceFile) \<in> set (emitted s s')
            \<and> (\<forall>(m, msg) \<in> set (emitted s s'). m \<noteq> ConsoleError)
            \<and> (\<forall>configs results totalRules.
                  buildAll_loop env
                    (\<lparr>cfg_type = type, cfg_source = sourceFile, cfg_output = outputFile\<rparr> # configs)
                    results totalRules s
                  = buildAll_loop env configs
                      (results\<lparr>br_skipped := br_skipped results
                          @ [\<lparr>cfg_type = type, cfg_source = sourceFile, cfg_output = outputFile\<rparr>]\<rparr>)
                      totalRules s')"
    by (rule exI, intro conjI, rule b) (simp_all add: b)
next
  note v = validateSourceFile_absent [OF absent, of type]
  show "\<exists>r s'. validateSourceFile env sourceFile type s = (r, s')
            \<and> world s' = world s
            \<and> sr_valid r = False
            \<and> sr_errors r = [js ''Source file not found: '' @ path_join env (sourcesDir env) sourceFile]
            \<and> sr_warnings r = []
            \<and> exitStatus_source r = 1
            \<and> (\<forall>configs results.
                  validateSources env ((sourceFile, type) # configs) results s
                  = validateSources env configs
                      (results\<lparr>vr_sources := vr_sources results @ [r],
                         vr_summary := (vr_summary results)
                           \<lparr>invalid_files := invalid_files (vr_summary results) + 1\<rparr>\<rparr>) s')"
    by (rule exI, rule exI, intro conjI, rule v)
       (simp_all add: v print_def exitStatus_source_def Let_def)
next
  show "\<forall>results s'.
          (sourceFile, type) \<in> set sourceConfigs \<and> validateAll env s = (Inr results, s')
          \<longrightarrow> exitStatus_all results = 1"
    using validateAll_absent [OF _ absent] by blast
qed

theorem absent_source_skipped_or_invalid_witness:
  "\<not> existsSync node1 (world state0) (path_join node1 (sourcesDir node1) (js ''direct-ips.txt''))
   \<and> fst (buildRule node1 (js ''ip-cidr'') (js ''direct-ips.txt'') (js ''direct-ips.srs'') state0)
       = None
   \<and> sr_valid (fst (validateSourceFile node1 (js ''direct-ips.txt'') (js ''ip-cidr'') state0))
       = False"
proof -
  have h: "\<not> existsSync node1 (world state0)
              (path_join node1 (sourcesDir node1) (js ''direct-ips.txt''))"
    by (simp add: run_simps)
  from absent_source_skipped_or_invalid [OF h, of "js ''ip-cidr''" "js ''direct-ips.srs''"] h
  show ?thesis by fastforce
qed

text \<open>
  C8.  The claim: a template object with the four required fields, a non-empty string type
  and an object of rules is valid whatever its version, a version other than 1 adding a
  warning only.  The code misses it on two templates that meet these conditions.  When the
  version is the object \<^verbatim>\<open>{"toString": 1}\<close>, the template literal of the warning cannot
  convert it to a string and throws; when the template has an own property
  \<open>hasOwnProperty\<close>, the call \<^verbatim>\<open>template.hasOwnProperty(field)\<close> throws.  In both cases the
  \<open>catch\<close> records the error \<open>Template validation failed\<close>, with no warning, and the result
  is not valid.
\<close>

theorem validateTemplate_throwing_templates_invalid:
  "FileUtils_readJsonFile node1 (path_join node1 (templatesDir node1) (js ''version-object.json''))
       (print ConsoleLog (ValidatingTemplate (js ''version-object.json'')) state1)
     = Inr templateVersionObject
   \<and> hasOwnProperty templateVersionObject (js ''version'') = Inr True
   \<and> hasOwnProperty templateVersionObject (js ''rules'') = Inr True
   \<and> hasOwnProperty templateVersionObject (js ''description'') = Inr True
   \<and> hasOwnProperty templateVersionObject (js ''type'') = Inr True
   \<and> getField templateVersionObject (js ''version'') = Inr (Obj [(js ''toString'', Num 1)])
   \<and> getField templateVersionObject (js ''rules'') = Inr (Obj [(js ''domain-suffix'', Arr [])])
   \<and> getField templateVersionObject (js ''type'') = Inr (Str (js ''domain-suffix''))
   \<and> fst (validateTemplate node1 (js ''version-object.json'') state1)
       = \<lparr>tr_file = js ''version-object.json'', tr_valid = False,
          tr_errors = [js ''Template validation failed: TypeError''], tr_warnings = []\<rparr>
   \<and> FileUtils_readJsonFile node1 (path_join node1 (templatesDir node1) (js ''shadow.json''))
       (print ConsoleLog (ValidatingTemplate (js ''shadow.json'')) state1) = Inr templateShadow
   \<and> getField templateShadow (js ''version'') = Inr (Num 2)
   \<and> getField templateShadow (js ''rules'') = Inr (Obj [(js ''domain-suffix'', Arr [])])
   \<and> getField templateShadow (js ''description'') = Inr (Str (js ''d''))
   \<and> getField templateShadow (js ''type'') = Inr (Str (js ''domain-suffix''))
   \<and> fst (validateTemplate node1 (js ''shadow.json'') state1)
       = \<lparr>tr_file = js ''shadow.json'', tr_valid = False,
          tr_errors = [js ''Template validation failed: TypeError''], tr_warnings = []\<rparr>"
  by (simp add: validateTemplate_def checkTemplate_def requiredFields_def templateShadow_def
        templateVersionObject_def errorMessage_def run_simps)

text \<open>
  C1.  When the external compilation fails but the JSON fallback is written,
  \<open>buildSrsFile\<close> returns \<open>true\<close>.  \<open>buildWithSingBox\<close> returns \<open>false\<close> exactly when it
  does not throw and the compilation did not succeed: the command failed or timed out, or
  the output file is missing or empty.  Then, for every rule data and output path, if the
  fallback file is written, \<open>buildSrsFile\<close> returns \<open>true\<close>; \<open>buildRule\<close>, which has
  reached the build with a valid rule, a template and the key of its type, returns the
  artifact; the loop of \<open>buildAll\<close> appends it to the success list; and \<open>buildAll\<close>, run
  from any state from which its loop reaches this config in this state, has the artifact in
  the success list of the results that it reports and returns, although no binary file was
  built.
\<close>

theorem fallback_build_is_success:
  fixes env :: "'w node"
  assumes parse: "parseTextFile env (path_join env (sourcesDir env) sourceFile)
                    (print ConsoleLog (BuildingRule type sourceFile) s) = (Inr rules, s1)"
    and valid: "filterValidRules rules type \<noteq> []"
    and template: "loadTemplate env outputFile type
                    (print ConsoleLog (RuleStats (getRuleStats rules))
                      (print ConsoleLog (ValidRulesCount (length (filterValidRules rules type))
                                           (length rules - length (filterValidRules rules type)))
                        (print ConsoleLog (FoundRules (length rules) sourceFile) s1)))
                   = (Inr template, s2)"
    and fields: "getField template (js ''version'') = Inr tversion"
                "getField template (js ''type'') = Inr ttype"
                "getField template (js ''description'') = Inr tdescription"
    and key: "ToString env ttype = Inr key"
    and ruleData: "ruleData = ruleDataOf tversion ttype key tdescription (filterValidRules rules type)
                     (ruleMetadata env sourceFile (filterValidRules rules type) (getRuleStats rules) s2)"
    and outputPath: "outputPath = path_join env (distDir env) outputFile"
    and dir: "ensureOutputDir env outputPath s2 = (Inr (), s3)"
    and compile: "buildWithSingBox env ruleData outputPath s3 = (Inr False, s4)"
    and document: "fallbackDocument env ruleData = Inr document"
    and fallback: "writeFileSync env (world s4) (fallbackFile outputPath) document = (None, w)"
    and s5: "s5 = print ConsoleLog (BuiltFallbackFile (fallbackFile outputPath)) (s4\<lparr>world := w\<rparr>)"
    and artifact: "artifact =
                     \<lparr>a_type = type, a_source = sourceFile, a_output = outputFile,
                      a_rules = filterValidRules rules type,
                      a_metadata = ruleMetadata env sourceFile (filterValidRules rules type)
                                     (getRuleStats rules) s2\<rparr>"
  shows "(\<forall>rd out t b t'.
            buildWithSingBox env rd out t = (Inr b, t')
            \<longrightarrow> (b \<longleftrightarrow> binaryCompiled env rd out (snd (ensureTempDir env t))))
    \<and> (\<forall>rd out t t1 t2 doc w'.
            ensureOutputDir env out t = (Inr (), t1)
            \<and> buildWithSingBox env rd out t1 = (Inr False, t2)
            \<and> fallbackDocument env rd = Inr doc
            \<and> writeFileSync env (world t2) (fallbackFile out) doc = (None, w')
            \<longrightarrow> buildSrsFile env rd out t
                  = (Inr True, print ConsoleLog (BuiltFallbackFile (fallbackFile out))
                                 (t2\<lparr>world := w'\<rparr>)))
    \<and> \<not> binaryCompiled env ruleData outputPath (snd (ensureTempDir env s3))
    \<and> buildSrsFile env ruleData outputPath s2 = (Inr True, s5)
    \<and> buildRule env type sourceFile outputFile s = (Some artifact, s5)
    \<and> (\<forall>configs results totalRules.
          artifact \<in> set (br_success (fst (fst (buildAll_loop env
             (\<lparr>cfg_type = type, cfg_source = sourceFile, cfg_output = outputFile\<rparr> # configs)
             results totalRules s)))))
    \<and> (\<forall>t before after results0 n0 res n t1.
          ruleConfigs
            = before @ \<lparr>cfg_type = type, cfg_source = sourceFile, cfg_output = outputFile\<rparr> # after
          \<and> buildAll_loop env before
                \<lparr>br_success = [], br_failed = [], br_skipped = [], br_summary = None\<rparr> 0
                (print ConsoleLog StartingBuild t) = ((results0, n0), s)
          \<and> buildAll_loop env ruleConfigs
                \<lparr>br_success = [], br_failed = [], br_skipped = [], br_summary = None\<rparr> 0
                (print ConsoleLog StartingBuild t) = ((res, n), t1)
          \<longrightarrow> artifact \<in> set (br_success res)
              \<and> buildAll env t =
                  (case generateBuildReport env
                          (res\<lparr>br_summary := Some \<lparr>total_configs = length ruleConfigs,
                                                    success_count = length (br_success res),
                                                    failed_count = length (br_failed res),
                                                    skipped_count = length (br_skipped res),
                                                    total_rules = n\<rparr>\<rparr>)
                          \<lparr>total_configs = length ruleConfigs,
                           success_count = length (br_success res),
                           failed_count = length (br_failed res),
                           skipped_count = length (br_skipped res),
                           total_rules = n\<rparr> t1 of
                     (Inl e, t2) \<Rightarrow> (Inl e, t2)
                   | (Inr u, t2) \<Rightarrow>
                       (Inr (res\<lparr>br_summary := Some \<lparr>total_configs = length ruleConfigs,
                                                      success_count = length (br_success res),
                                                      failed_count = length (br_failed res),
                                                      skipped_count = length (br_skipped res),
                                                      total_rules = n\<rparr>\<rparr>), t2)))"
proof -
  let ?cfg = "\<lparr>cfg_type = type, cfg_source = sourceFile, cfg_output = outputFile\<rparr>"
  have build: "buildSrsFile env ruleData outputPath s2 = (Inr True, s5)"
    unfolding s5 by (rule buildSrsFile_fallback [OF dir compile document fallback])
  have rule: "buildRule env type sourceFile outputFile s = (Some artifact, s5)"
    unfolding artifact
    by (rule buildRule_artifact [OF parse valid template fields key])
       (use build in \<open>simp add: ruleData outputPath\<close>)
  have recorded: "artifact \<in> set (br_success (fst (fst (buildAll_loop env (?cfg # configs)
                     results totalRules s))))" for configs results totalRules
    by (rule buildAll_loop_records) (simp add: rule)
  show ?thesis
  proof (intro conjI allI impI)
    fix rd out t b t'
    assume "buildWithSingBox env rd out t = (Inr b, t')"
    then show "b \<longleftrightarrow> binaryCompiled env rd out (snd (ensureTempDir env t))"
      by (rule buildWithSingBox_result)
  next
    fix rd out t t1 t2 doc w'
    assume "ensureOutputDir env out t = (Inr (), t1)
              \<and> buildWithSingBox env rd out t1 = (Inr False, t2)
              \<and> fallbackDocument env rd = Inr doc
              \<and> writeFileSync env (world t2) (fallbackFile out) doc = (None, w')"
    then show "buildSrsFile env rd out t
        = (Inr True, print ConsoleLog (BuiltFallbackFile (fallbackFile out)) (t2\<lparr>world := w'\<rparr>))"
      by (auto intro: buildSrsFile_fallback)
  next
    from buildWithSingBox_result [OF compile]
    show "\<not> binaryCompiled env ruleData outputPath (snd (ensureTempDir env s3))" by simp
  next
    show "buildSrsFile env ruleData outputPath s2 = (Inr True, s5)" by (rule build)
  next
    show "buildRule env type sourceFile outputFile s = (Some artifact, s5)" by (rule rule)
  next
    fix configs results totalRules
    show "artifact \<in> set (br_success (fst (fst (buildAll_loop env (?cfg # configs)
                     results totalRules s))))"
      by (rule recorded)
  next
    fix t before after results0 n0 res n t1
    assume a: "ruleConfigs = before @ ?cfg # after
          \<and> buildAll_loop env before
                \<lparr>br_success = [], br_failed = [], br_skipped = [], br_summary = None\<rparr> 0
                (print ConsoleLog StartingBuild t) = ((results0, n0), s)
          \<and> buildAll_loop env ruleConfigs
                \<lparr>br_success = [], br_failed = [], br_skipped = [], br_summary = None\<rparr> 0
                (print ConsoleLog StartingBuild t) = ((res, n), t1)"
    then have split: "ruleConfigs = before @ ?cfg # after"
      and reached: "buildAll_loop env before
                \<lparr>br_success = [], br_failed = [], br_skipped = [], br_summary = None\<rparr> 0
                (print ConsoleLog StartingBuild t) = ((results0, n0), s)"
      and whole: "buildAll_loop env ruleConfigs
                \<lparr>br_success = [], br_failed = [], br_skipped = [], br_summary = None\<rparr> 0
                (print ConsoleLog StartingBuild t) = ((res, n), t1)"
      by blast+
    have "buildAll_loop env ruleConfigs
                \<lparr>br_success = [], br_failed = [], br_skipped = [], br_summary = None\<rparr> 0
                (print ConsoleLog StartingBuild t)
          = buildAll_loop env (?cfg # after) results0 n0 s"
      by (subst split) (simp only: buildAll_loop_append reached prod.case)
    with whole have "buildAll_loop env (?cfg # after) results0 n0 s = ((res, n), t1)"
      by (simp only:)
    with recorded [of after results0 n0] show "artifact \<in> set (br_success res)"
      by (simp only: fst_conv)
  next
    fix t before after results0 n0 res n t1
    assume "ruleConfigs = before @ ?cfg # after
          \<and> buildAll_loop env before
                \<lparr>br_success = [], br_failed = [], br_skipped = [], br_summary = None\<rparr> 0
                (print ConsoleLog StartingBuild t) = ((results0, n0), s)
          \<and> buildAll_loop env ruleConfigs
                \<lparr>br_success = [], br_failed = [], br_skipped = [], br_summary = None\<rparr> 0
                (print ConsoleLog StartingBuild t) = ((res, n), t1)"
    then show "buildAll env t =
                  (case generateBuildReport env
                          (res\<lparr>br_summary := Some \<lparr>total_configs = length ruleConfigs,
                                                    success_count = length (br_success res),
                                                    failed_count = length (br_failed res),
                                                    skipped_count = length (br_skipped res),
                                                    total_rules = n\<rparr>\<rparr>)
                          \<lparr>total_configs = length ruleConfigs,
                           success_count = length (br_success res),
                           failed_count = length (br_failed res),
                           skipped_count = length (br_skipped res),
                           total_rules = n\<rparr> t1 of
                     (Inl e, t2) \<Rightarrow> (Inl e, t2)
                   | (Inr u, t2) \<Rightarrow>
                       (Inr (res\<lparr>br_summary := Some \<lparr>total_configs = length ruleConfigs,
                                                      success_count = length (br_success res),
                                                      failed_count = length (br_failed res),
                                                      skipped_count = length (br_skipped res),
                                                      total_rules = n\<rparr>\<rparr>), t2))"
      by (intro buildAll_unfold) simp
  qed
qed

theorem fallback_build_is_success_witness:
  "filterValidRules [js ''example.com''] (js ''domain-suffix'') \<noteq> []
   \<and> map_option a_rules
         (fst (buildRule node1 (js ''domain-suffix'') (js ''direct-domains.txt'')
                 (js ''direct-domains.srs'') (print ConsoleLog StartingBuild state1)))
       = Some (filterValidRules [js ''example.com''] (js ''domain-suffix''))
   \<and> (case buildAll node1 state1 of
         (Inr results, t') \<Rightarrow>
           list_ex (\<lambda>a. a_source a = js ''direct-domains.txt''
                        \<and> a_rules a = filterValidRules [js ''example.com''] (js ''domain-suffix''))
             (br_success results)
       | (Inl e, t') \<Rightarrow> False)"
proof -
  let ?type = "js ''domain-suffix''" and ?src = "js ''direct-domains.txt''"
    and ?out = "js ''direct-domains.srs''" and ?rules = "[js ''example.com'']"
  let ?init = "\<lparr>br_success = [], br_failed = [], br_skipped = [], br_summary = None\<rparr>"
  let ?s = "print ConsoleLog StartingBuild state1"
  let ?s1 = "print ConsoleLog (BuildingRule ?type ?src) ?s"
  let ?s1' = "print ConsoleLog (RuleStats (getRuleStats ?rules))
               (print ConsoleLog (ValidRulesCount (length (filterValidRules ?rules ?type))
                                    (length ?rules - length (filterValidRules ?rules ?type)))
                 (print ConsoleLog (FoundRules (length ?rules) ?src) ?s1))"
  let ?s2 = "print ConsoleLog (UsingTemplate (js ''/s/../templates/domain-suffix.json'')) ?s1'"
  let ?rd = "ruleDataOf (Num 2) (Str ?type) ?type (Str (js ''d'')) (filterValidRules ?rules ?type)
               (ruleMetadata node1 ?src (filterValidRules ?rules ?type) (getRuleStats ?rules) ?s2)"
  let ?path = "path_join node1 (distDir node1) ?out"
  let ?cfg = "\<lparr>cfg_type = ?type, cfg_source = ?src, cfg_output = ?out\<rparr>"
  have path: "?path = js ''/s/../dist/direct-domains.srs''"
    by (simp add: run_simps)
  have parse: "parseTextFile node1 (path_join node1 (sourcesDir node1) ?src) ?s1 = (Inr ?rules, ?s1)"
    by (simp add: run_simps)
  have valid: "filterValidRules ?rules ?type \<noteq> []"
    by code_simp
  have template: "loadTemplate node1 ?out ?type ?s1' = (Inr template2, ?s2)"
    by (simp add: loadTemplate_def run_simps)
  have version: "getField template2 (js ''version'') = Inr (Num 2)"
    and type: "getField template2 (js ''type'') = Inr (Str ?type)"
    and description: "getField template2 (js ''description'') = Inr (Str (js ''d''))"
    by (simp_all add: template2_def js_def chr_def)
  have key: "ToString node1 (Str ?type) = Inr ?type"
    by (simp add: ToString_def)
  have dir: "ensureOutputDir node1 ?path ?s2 = (Inr (), ?s2)"
    by (simp add: ensureOutputDir_def run_simps)
  have "fst (buildWithSingBox node1 ?rd ?path ?s2) = Inr False"
    by (simp add: buildWithSingBox_def compileWithSingBox_def ensureTempDir_def cleanTempDir_def
          tempJsonFile_def numToString_def compileCommand_def quoted_def ruleSetDocument_def
          rulesOf_def ruleTypeOf_def ruleDataOf_def run_simps)
  then have compile: "buildWithSingBox node1 ?rd ?path ?s2
                        = (Inr False, snd (buildWithSingBox node1 ?rd ?path ?s2))"
    by (simp add: prod_eq_iff)
  have document: "fallbackDocument node1 ?rd = Inr (js ''{}'')"
    by (simp add: fallbackDocument_def ruleSetDocument_def rulesOf_def ruleTypeOf_def
          ruleDataOf_def ToString_def node1_def memory_node_def)
  have fallback: "writeFileSync node1 (world (snd (buildWithSingBox node1 ?rd ?path ?s2)))
                    (fallbackFile ?path) (js ''{}'')
                  = (None, snd (writeFileSync node1
                                  (world (snd (buildWithSingBox node1 ?rd ?path ?s2)))
                                  (fallbackFile ?path) (js ''{}'')))"
    by (simp add: node1_def memory_node_def)
  note all = fallback_build_is_success
    [OF parse valid template version type description key refl refl dir compile document
        fallback refl refl]
  let ?artifact = "\<lparr>a_type = ?type, a_source = ?src, a_output = ?out,
                     a_rules = filterValidRules ?rules ?type,
                     a_metadata = ruleMetadata node1 ?src (filterValidRules ?rules ?type)
                                    (getRuleStats ?rules) ?s2\<rparr>"
  from all have "fst (buildRule node1 ?type ?src ?out ?s) = Some ?artifact"
    by (elim conjE) (simp only: fst_conv)
  then have built: "map_option a_rules (fst (buildRule node1 ?type ?src ?out ?s))
      = Some (filterValidRules ?rules ?type)"
    by simp
  obtain res n t1 where loop: "buildAll_loop node1 ruleConfigs ?init 0 ?s = ((res, n), t1)"
    by (cases "buildAll_loop node1 ruleConfigs ?init 0 ?s") auto
  have split: "ruleConfigs = [] @ ?cfg # tl ruleConfigs"
    by (simp add: ruleConfigs_def)
  have reached: "buildAll_loop node1 [] ?init 0 ?s = ((?init, 0), ?s)"
    by simp
  note last = all [THEN conjunct2, THEN conjunct2, THEN conjunct2, THEN conjunct2,
                   THEN conjunct2, THEN conjunct2, rule_format,
                   OF conjI [OF split conjI [OF reached loop]]]
  let ?sm = "\<lparr>total_configs = length ruleConfigs, success_count = length (br_success res),
              failed_count = length (br_failed res), skipped_count = length (br_skipped res),
              total_rules = n\<rparr>"
  obtain u t2 where "generateBuildReport node1 (res\<lparr>br_summary := Some ?sm\<rparr>) ?sm t1 = (Inr u, t2)"
    using node1_report_written [of "res\<lparr>br_summary := Some ?sm\<rparr>" ?sm t1]
    by (cases "generateBuildReport node1 (res\<lparr>br_summary := Some ?sm\<rparr>) ?sm t1") auto
  with last have returned: "buildAll node1 state1 = (Inr (res\<lparr>br_summary := Some ?sm\<rparr>), t2)"
    and recorded: "?artifact \<in> set (br_success res)"
    by simp_all
  have "list_ex (\<lambda>a. a_source a = ?src \<and> a_rules a = filterValidRules ?rules ?type)
          (br_success res)"
    unfolding list_ex_iff by (rule bexI [OF _ recorded]) simp
  with returned have "case buildAll node1 state1 of
         (Inr results, t') \<Rightarrow>
           list_ex (\<lambda>a. a_source a = ?src \<and> a_rules a = filterValidRules ?rules ?type)
             (br_success results)
       | (Inl e, t') \<Rightarrow> False"
    by simp
  with valid built show ?thesis by blast
qed

end
